theory Spec2Isabelle
  imports Main
begin

section \<open>Values, payloads and the field map\<close>

text \<open>
  A Python value that travels from the payload to the database driver. The module never
  inspects a value: it only moves it, so everything that is neither \<open>None\<close> nor a
  \<open>str\<close> (numbers, booleans, nested JSON) is kept opaque in \<open>PyObj\<close>.
\<close>

datatype 'a pyval = PyNone | PyStr string | PyObj 'a

text \<open>\<open>fields: Dict[str, Any]\<close>: a key is absent (\<open>None\<close> of the map) or bound to a value,
  which may itself be \<open>PyNone\<close> (a JSON \<open>null\<close>).\<close>

type_synonym 'a field_set = "string \<rightharpoonup> 'a pyval"

text \<open>\<open>class AirtablePayload(BaseModel)\<close> with its two fields \<open>id\<close> and \<open>fields\<close>.\<close>

record 'a AirtablePayload =
  payload_id :: string
  payload_fields :: "'a field_set"

definition FIELDS_LIST :: "string list" where
  "FIELDS_LIST =
     [''record_id'', ''Startup name'', ''PH1_Constitution_Location'', ''date_sourced'']"

text \<open>
  A Python \<open>dict\<close> with string keys whose iteration order matters is an association
  list in insertion order; \<open>d[k] = v\<close> overwrites in place or appends.
\<close>

fun dict_set :: "(string \<times> 'v) list \<Rightarrow> string \<Rightarrow> 'v \<Rightarrow> (string \<times> 'v) list" where
  "dict_set [] k v = [(k, v)]"
| "dict_set ((k', v') # d) k v =
     (if k' = k then (k, v) # d else (k', v') # dict_set d k v)"

definition dict_keys :: "(string \<times> 'v) list \<Rightarrow> string list" where
  "dict_keys d = map fst d"

definition dict_values :: "(string \<times> 'v) list \<Rightarrow> 'v list" where
  "dict_values d = map snd d"

text \<open>\<open>FIELD_MAP = {k: k for k in FIELDS_LIST}\<close>\<close>

definition FIELD_MAP :: "(string \<times> string) list" where
  "FIELD_MAP = foldl (\<lambda>d k. dict_set d k k) [] FIELDS_LIST"

text \<open>\<open>fields.get(at_name)\<close>: the bound value, \<open>None\<close> for a missing key.\<close>

definition dict_get :: "'a field_set \<Rightarrow> string \<Rightarrow> 'a pyval" where
  "dict_get flds k = (case flds k of None \<Rightarrow> PyNone | Some v \<Rightarrow> v)"

definition build_values_from_fields :: "'a field_set \<Rightarrow> 'a pyval list" where
  "build_values_from_fields flds =
     map (\<lambda>at_name. dict_get flds at_name) (dict_keys FIELD_MAP)"

section \<open>Query builder\<close>

text \<open>\<open>sep.join(xs)\<close>\<close>

fun join :: "string \<Rightarrow> string list \<Rightarrow> string" where
  "join sep [] = []"
| "join sep [x] = x"
| "join sep (x # y # ys) = x @ sep @ join sep (y # ys)"

text \<open>
  \<open>PG_TABLE_NAME = os.environ.get("PG_TABLE_NAME")\<close> is \<open>None\<close> when the variable is
  not set, and an f-string prints \<open>None\<close> as the text \<open>None\<close>. The configured name is a
  parameter \<open>tbl\<close> of every function that reads the global.
\<close>

definition fmt_name :: "string option \<Rightarrow> string" where
  "fmt_name tbl = (case tbl of None \<Rightarrow> ''None'' | Some t \<Rightarrow> t)"

definition nl :: string where
  "nl = [CHR 0x0A]"

definition insert_cols :: "string list" where
  "insert_cols = ''airtable_id'' # dict_values FIELD_MAP"

definition insert_placeholders :: "string list" where
  "insert_placeholders = replicate (length insert_cols) ''%s''"

definition build_insert_query :: "string option \<Rightarrow> string" where
  "build_insert_query tbl =
     (let cols = insert_cols;
          col_list = join '', '' cols;
          placeholders = join '', '' insert_placeholders
      in nl @ ''        INSERT INTO '' @ fmt_name tbl @ '' ('' @ col_list @ '')'' @
         nl @ ''        VALUES ('' @ placeholders @ '')'' @
         nl @ ''    '')"

definition update_cols :: "string list" where
  "update_cols = dict_values FIELD_MAP"

definition build_update_query :: "string option \<Rightarrow> string" where
  "build_update_query tbl =
     (let set_clause = join '', '' (map (\<lambda>col. col @ '' = %s'') update_cols)
      in nl @ ''        UPDATE '' @ fmt_name tbl @
         nl @ ''        SET '' @ set_clause @
         nl @ ''        WHERE airtable_id = %s'' @
         nl @ ''    '')"

text \<open>The statement text of \<open>find_record_by_id\<close>.\<close>

definition select_query :: "string option \<Rightarrow> string" where
  "select_query tbl = ''SELECT * FROM '' @ fmt_name tbl @ '' WHERE airtable_id = %s''"


section \<open>The database driver\<close>

text \<open>
  The driver puts one parameter in the place of each \<open>%s\<close> of the statement text, left
  to right, before anything is sent; a \<open>%\<close> followed by another character takes no
  parameter. This counts the parameters a text asks for.
\<close>

fun count_placeholders :: "string \<Rightarrow> nat" where
  "count_placeholders (a # b # rest) =
     (if a = CHR ''%''
      then (if b = CHR ''s'' then Suc (count_placeholders rest) else count_placeholders rest)
      else count_placeholders (b # rest))"
| "count_placeholders _ = 0"

text \<open>
  What the driver raises when the parameter list (a Python list here) does not fit the
  text: too few parameters, or too many.
\<close>

definition bind_error :: "string \<Rightarrow> 'a list \<Rightarrow> string option" where
  "bind_error q ps =
     (if length ps < count_placeholders q then Some ''list index out of range''
      else if count_placeholders q < length ps
      then Some ''not all arguments converted during string formatting''
      else None)"

section \<open>The database engine: reading a statement\<close>

text \<open>
  The engine splits the statement text into tokens. Blanks and line ends separate tokens;
  a word is a run of letters, digits and underscores; a parameter stands where the text
  has \<open>%s\<close>. Any other character makes the text unreadable (the module's statements
  use none: no quotes, no comments, no semicolons).
\<close>

datatype token = Word string | Placeholder | LParen | RParen | Comma | Equals | Star

datatype scan_state = Idle | InWord string | AfterPercent

definition word_chars :: string where
  "word_chars = ''abcdefghijklmnopqrstuvwxyzABCDEFGHIJKLMNOPQRSTUVWXYZ0123456789_''"

definition is_space :: "char \<Rightarrow> bool" where
  "is_space c = (c = CHR '' '' \<or> c = CHR 0x0A \<or> c = CHR 0x09 \<or> c = CHR 0x0D)"

definition symbol :: "char \<Rightarrow> token option" where
  "symbol c =
     (if c = CHR ''('' then Some LParen
      else if c = CHR '')'' then Some RParen
      else if c = CHR '','' then Some Comma
      else if c = CHR ''='' then Some Equals
      else if c = CHR ''*'' then Some Star
      else None)"

text \<open>The word being read, and the token it becomes when it ends.\<close>

fun open_word :: "scan_state \<Rightarrow> string" where
  "open_word (InWord w) = w"
| "open_word _ = []"

fun flush :: "scan_state \<Rightarrow> token list" where
  "flush (InWord w) = [Word w]"
| "flush _ = []"

definition emit :: "token list \<Rightarrow> token list option \<Rightarrow> token list option" where
  "emit ts r = (case r of None \<Rightarrow> None | Some us \<Rightarrow> Some (ts @ us))"

fun scan :: "scan_state \<Rightarrow> string \<Rightarrow> token list option" where
  "scan st [] = (if st = AfterPercent then None else Some (flush st))"
| "scan st (c # cs) =
     (if st = AfterPercent
      then (if c = CHR ''s'' then emit [Placeholder] (scan Idle cs) else None)
      else if is_space c then emit (flush st) (scan Idle cs)
      else if c = CHR ''%'' then emit (flush st) (scan AfterPercent cs)
      else (case symbol c of
              Some t \<Rightarrow> emit (flush st @ [t]) (scan Idle cs)
            | None \<Rightarrow>
                if c \<in> set word_chars then scan (InWord (open_word st @ [c])) cs
                else None))"

text \<open>
  A name that is not quoted is folded to lower case, and the words of the three
  statements are reserved: they are no names.
\<close>

definition lower :: "char \<Rightarrow> char" where
  "lower c =
     (case map_of (zip ''ABCDEFGHIJKLMNOPQRSTUVWXYZ'' ''abcdefghijklmnopqrstuvwxyz'') c of
        None \<Rightarrow> c
      | Some l \<Rightarrow> l)"

definition fold_case :: "string \<Rightarrow> string" where
  "fold_case w = map lower w"

definition keyword :: "string \<Rightarrow> bool" where
  "keyword w =
     (fold_case w \<in> set [''select'', ''from'', ''where'', ''insert'', ''into'', ''values'',
                           ''update'', ''set''])"

definition valid_name :: "string \<Rightarrow> bool" where
  "valid_name w =
     (case w of [] \<Rightarrow> False | c # _ \<Rightarrow> c \<notin> set ''0123456789'' \<and> \<not> keyword w)"

text \<open>
  Two names in a row, with nothing between them, are an error at the second one: this
  is what an unquoted name that holds a blank looks like to the engine.
\<close>

fun is_name :: "token \<Rightarrow> bool" where
  "is_name (Word w) = (\<not> keyword w)"
| "is_name _ = False"

fun word_of :: "token \<Rightarrow> string" where
  "word_of (Word w) = w"
| "word_of _ = []"

fun stray_word :: "token list \<Rightarrow> string option" where
  "stray_word (a # b # rest) =
     (if is_name a \<and> is_name b then Some (word_of b) else stray_word (b # rest))"
| "stray_word _ = None"

text \<open>
  The engine's message for it, \<open>syntax error at or near "w"\<close> (the first line of what
  the engine reports; \<open>dq\<close> is the double quote).
\<close>

definition dq :: string where
  "dq = [CHR 0x22]"

definition error_near :: "string \<Rightarrow> string" where
  "error_near w = ''syntax error at or near '' @ dq @ w @ dq"

text \<open>
  The three statement forms the engine of this model knows:
  \<open>SELECT * FROM t WHERE c = %s\<close>, \<open>INSERT INTO t (c1, ..., cn) VALUES (%s, ..., %s)\<close>
  and \<open>UPDATE t SET c1 = %s, ..., cn = %s WHERE c = %s\<close>.
\<close>

datatype stmt =
  Select string string
| Insert string "string list" nat
| Update string "string list" string

text \<open>\<open>c1, ..., cn)\<close>: the names and what follows the closing parenthesis.\<close>

fun name_list :: "token list \<Rightarrow> (string list \<times> token list) option" where
  "name_list (Word c # t # rest) =
     (case t of
        Comma \<Rightarrow>
          (case name_list rest of None \<Rightarrow> None | Some (cs, r) \<Rightarrow> Some (c # cs, r))
      | RParen \<Rightarrow> Some ([c], rest)
      | _ \<Rightarrow> None)"
| "name_list _ = None"

text \<open>\<open>%s, ..., %s)\<close>: their number and what follows the closing parenthesis.\<close>

fun placeholder_list :: "token list \<Rightarrow> (nat \<times> token list) option" where
  "placeholder_list (Placeholder # t # rest) =
     (case t of
        Comma \<Rightarrow>
          (case placeholder_list rest of None \<Rightarrow> None | Some (n, r) \<Rightarrow> Some (Suc n, r))
      | RParen \<Rightarrow> Some (1, rest)
      | _ \<Rightarrow> None)"
| "placeholder_list _ = None"

text \<open>\<open>c1 = %s, ..., cn = %s\<close>: the names and what follows the last assignment.\<close>

fun assignments :: "token list \<Rightarrow> (string list \<times> token list) option" where
  "assignments (Word c # Equals # Placeholder # rest) =
     (case rest of
        Comma # rest' \<Rightarrow>
          (case assignments rest' of None \<Rightarrow> None | Some (cs, r) \<Rightarrow> Some (c # cs, r))
      | _ \<Rightarrow> Some ([c], rest))"
| "assignments _ = None"

definition is_kw :: "string \<Rightarrow> string \<Rightarrow> bool" where
  "is_kw k w = (fold_case w = k)"

definition select_stmt :: "token list \<Rightarrow> stmt option" where
  "select_stmt ts =
     (case ts of
        [Star, Word f, Word t, Word w, Word c, Equals, Placeholder] \<Rightarrow>
          if is_kw ''from'' f \<and> is_kw ''where'' w \<and> valid_name t \<and> valid_name c
          then Some (Select t c) else None
      | _ \<Rightarrow> None)"

definition insert_stmt :: "token list \<Rightarrow> stmt option" where
  "insert_stmt ts =
     (case ts of
        Word i # Word t # LParen # rest \<Rightarrow>
          (case name_list rest of
             Some (cols, Word v # LParen # rest') \<Rightarrow>
               (case placeholder_list rest' of
                  Some (n, []) \<Rightarrow>
                    if is_kw ''into'' i \<and> is_kw ''values'' v \<and> valid_name t \<and>
                       list_all valid_name cols
                    then Some (Insert t cols n) else None
                | _ \<Rightarrow> None)
           | _ \<Rightarrow> None)
      | _ \<Rightarrow> None)"

definition update_stmt :: "token list \<Rightarrow> stmt option" where
  "update_stmt ts =
     (case ts of
        Word t # Word s # rest \<Rightarrow>
          (case assignments rest of
             Some (cols, [Word w, Word c, Equals, Placeholder]) \<Rightarrow>
               if is_kw ''set'' s \<and> is_kw ''where'' w \<and> valid_name t \<and> valid_name c \<and>
                  list_all valid_name cols
               then Some (Update t cols c) else None
           | _ \<Rightarrow> None)
      | _ \<Rightarrow> None)"

definition statement :: "token list \<Rightarrow> stmt option" where
  "statement ts =
     (case ts of
        Word k # rest \<Rightarrow>
          if is_kw ''select'' k then select_stmt rest
          else if is_kw ''insert'' k then insert_stmt rest
          else if is_kw ''update'' k then update_stmt rest
          else None
      | _ \<Rightarrow> None)"

text \<open>Reading a statement text: the statement, or the message of the syntax error.\<close>

definition pg_parse :: "string \<Rightarrow> string + stmt" where
  "pg_parse q =
     (case scan Idle q of
        None \<Rightarrow> Inl ''syntax error''
      | Some ts \<Rightarrow>
          (case stray_word ts of
             Some w \<Rightarrow> Inl (error_near w)
           | None \<Rightarrow>
               (case statement ts of None \<Rightarrow> Inl ''syntax error'' | Some s \<Rightarrow> Inr s)))"

section \<open>The database engine: running a statement\<close>

text \<open>
  A row is what \<open>RealDictCursor\<close> hands back: column name to value, in column order. A
  table is the list of its rows.
\<close>

type_synonym 'a row = "(string \<times> 'a pyval) list"
type_synonym 'a table = "'a row list"

text \<open>SQL \<open>WHERE c = p\<close>: a null on either side never matches.\<close>

definition row_matches :: "string \<Rightarrow> 'a pyval \<Rightarrow> 'a row \<Rightarrow> bool" where
  "row_matches c p r =
     (case map_of r c of
        None \<Rightarrow> False
      | Some v \<Rightarrow> v \<noteq> PyNone \<and> v = p)"

text \<open>
  \<open>SET c1 = v1, c2 = v2, ...\<close> on one row: each named column takes its value and keeps
  its place.
\<close>

definition set_columns :: "string list \<Rightarrow> 'a pyval list \<Rightarrow> 'a row \<Rightarrow> 'a row" where
  "set_columns cols vals r = foldl (\<lambda>r' (c, v). dict_set r' c v) r (zip cols vals)"

text \<open>A new row has every column of the table; a column the INSERT does not list is null.\<close>

definition new_row :: "string list \<Rightarrow> (string \<times> 'a pyval) list \<Rightarrow> 'a row" where
  "new_row columns given =
     map (\<lambda>c. (c, case map_of given c of None \<Rightarrow> PyNone | Some v \<Rightarrow> v)) columns"

definition no_relation :: "string \<Rightarrow> string" where
  "no_relation t = ''relation '' @ dq @ fold_case t @ dq @ '' does not exist''"

definition no_column :: "string \<Rightarrow> string" where
  "no_column c = ''column '' @ dq @ fold_case c @ dq @ '' does not exist''"

text \<open>
  The database holds one table: \<open>rel\<close> is its name and \<open>columns\<close> are its column names,
  as its catalog stores them. A statement names them in any case; it fails on another
  table name or on a column the table does not have. Otherwise it gives its result set
  and the new table.
\<close>

fun run_stmt ::
  "string \<Rightarrow> string list \<Rightarrow> stmt \<Rightarrow> 'a pyval list \<Rightarrow> 'a table \<Rightarrow>
   string + ('a row list \<times> 'a table)" where
  "run_stmt rel columns (Select t c) ps tab =
     (if fold_case t \<noteq> rel then Inl (no_relation t)
      else if fold_case c \<notin> set columns then Inl (no_column c)
      else (case ps of
              [p] \<Rightarrow> Inr (filter (row_matches (fold_case c) p) tab, tab)
            | _ \<Rightarrow> Inl ''wrong number of parameters''))"
| "run_stmt rel columns (Insert t cols n) ps tab =
     (if fold_case t \<noteq> rel then Inl (no_relation t)
      else (case filter (\<lambda>c. fold_case c \<notin> set columns) cols of
              c # _ \<Rightarrow> Inl (no_column c)
            | [] \<Rightarrow>
                if length cols \<noteq> n
                then Inl ''INSERT target columns and expressions differ in number''
                else if length ps \<noteq> n then Inl ''wrong number of parameters''
                else Inr ([], tab @ [new_row columns (zip (map fold_case cols) ps)])))"
| "run_stmt rel columns (Update t cols c) ps tab =
     (if fold_case t \<noteq> rel then Inl (no_relation t)
      else (case filter (\<lambda>c. fold_case c \<notin> set columns) (cols @ [c]) of
              c' # _ \<Rightarrow> Inl (no_column c')
            | [] \<Rightarrow>
                (case rev ps of
                   [] \<Rightarrow> Inl ''wrong number of parameters''
                 | p # vs \<Rightarrow>
                     if length vs \<noteq> length cols then Inl ''wrong number of parameters''
                     else Inr ([], map (\<lambda>r. if row_matches (fold_case c) p r
                                            then set_columns (map fold_case cols) (rev vs) r
                                            else r) tab))))"

section \<open>Connections and transactions\<close>

text \<open>
  What a connection has been asked to do, in order. The trace is how the model observes
  which statement was sent with which parameters, and whether the transaction was
  committed, rolled back and the connection released.
\<close>

datatype 'a event = Execute string "'a pyval list" | Commit | Rollback | Close

text \<open>
  A connection: the name and the columns of the database's table, the committed table,
  the table as the open transaction sees it, and the outcomes the environment will give
  to the coming calls that reach the server, \<open>execute\<close>, \<open>commit\<close> and \<open>rollback\<close>
  (\<open>Some msg\<close>: that call raises an exception with message \<open>msg\<close>, as on a lost link or
  a violated constraint; \<open>None\<close>, or no entry left: the environment lets the call
  through).
\<close>

record 'a conn =
  relation :: string
  columns_of :: "string list"
  persisted :: "'a table"
  pending :: "'a table"
  faults :: "string option list"
  trace :: "'a event list"
  closed :: bool

text \<open>The database server between requests.\<close>

record 'a server =
  table_name :: string
  table_columns :: "string list"
  table :: "'a table"
  script :: "string option list"

text \<open>
  \<open>get_conn()\<close>: a fresh connection, whose transaction starts from the committed table.
  The handler calls it before its \<open>try\<close> block; a request that cannot connect never
  reaches the code modelled here.
\<close>

definition get_conn :: "'a server \<Rightarrow> 'a conn" where
  "get_conn srv =
     \<lparr>relation = table_name srv, columns_of = table_columns srv,
      persisted = table srv, pending = table srv, faults = script srv,
      trace = [], closed = False\<rparr>"

definition next_outcome :: "'a conn \<Rightarrow> string option \<times> 'a conn" where
  "next_outcome c =
     (case faults c of [] \<Rightarrow> (None, c) | f # fs \<Rightarrow> (f, c\<lparr>faults := fs\<rparr>))"

text \<open>
  \<open>cur.execute(query, values)\<close>. An exception is \<open>Inl\<close> of its message; the connection
  is returned in either case, since the caller still holds it after an exception. The
  driver binds the parameters first; then the text travels to the server, which reads it
  and runs it.
\<close>

definition cur_execute ::
  "'a conn \<Rightarrow> string \<Rightarrow> 'a pyval list \<Rightarrow> (string + 'a row list) \<times> 'a conn" where
  "cur_execute c q ps =
     (let c0 = c\<lparr>trace := trace c @ [Execute q ps]\<rparr>
      in case bind_error q ps of
           Some msg \<Rightarrow> (Inl msg, c0)
         | None \<Rightarrow>
             (let (f, c1) = next_outcome c0
              in case f of
                   Some msg \<Rightarrow> (Inl msg, c1)
                 | None \<Rightarrow>
                     (case pg_parse q of
                        Inl msg \<Rightarrow> (Inl msg, c1)
                      | Inr s \<Rightarrow>
                          (case run_stmt (relation c1) (columns_of c1) s ps (pending c1) of
                             Inl msg \<Rightarrow> (Inl msg, c1)
                           | Inr (rs, t') \<Rightarrow> (Inr rs, c1\<lparr>pending := t'\<rparr>)))))"

text \<open>\<open>cur.fetchone()\<close>\<close>

definition fetchone :: "'a row list \<Rightarrow> 'a row option" where
  "fetchone rs = (case rs of [] \<Rightarrow> None | r # _ \<Rightarrow> Some r)"

text \<open>
  \<open>conn.commit()\<close> and \<open>conn.rollback()\<close> reach the server and may raise (a rollback
  on a connection that was lost does); \<open>conn.close()\<close> does not.
\<close>

definition conn_commit :: "'a conn \<Rightarrow> (string + unit) \<times> 'a conn" where
  "conn_commit c =
     (let (f, c1) = next_outcome (c\<lparr>trace := trace c @ [Commit]\<rparr>)
      in case f of
           Some msg \<Rightarrow> (Inl msg, c1)
         | None \<Rightarrow> (Inr (), c1\<lparr>persisted := pending c1\<rparr>))"

definition conn_rollback :: "'a conn \<Rightarrow> (string + unit) \<times> 'a conn" where
  "conn_rollback c =
     (let (f, c1) = next_outcome (c\<lparr>trace := trace c @ [Rollback]\<rparr>)
      in case f of
           Some msg \<Rightarrow> (Inl msg, c1)
         | None \<Rightarrow> (Inr (), c1\<lparr>pending := persisted c1\<rparr>))"

definition conn_close :: "'a conn \<Rightarrow> 'a conn" where
  "conn_close c = c\<lparr>closed := True, trace := trace c @ [Close]\<rparr>"

section \<open>Record store accessor\<close>

definition find_record_by_id ::
  "string option \<Rightarrow> 'a conn \<Rightarrow> string \<Rightarrow> (string + 'a row option) \<times> 'a conn" where
  "find_record_by_id tbl conn airtable_id =
     (case cur_execute conn (select_query tbl) [PyStr airtable_id] of
        (Inl e, c) \<Rightarrow> (Inl e, c)
      | (Inr rs, c) \<Rightarrow> (Inr (fetchone rs), c))"

definition create_record_in_postgres ::
  "string option \<Rightarrow> 'a conn \<Rightarrow> string \<Rightarrow> 'a field_set \<Rightarrow> (string + unit) \<times> 'a conn" where
  "create_record_in_postgres tbl conn airtable_id flds =
     (let values = [PyStr airtable_id] @ build_values_from_fields flds;
          query = build_insert_query tbl
      in case cur_execute conn query values of
           (Inl e, c) \<Rightarrow> (Inl e, c)
         | (Inr _, c) \<Rightarrow> (Inr (), c))"

definition update_record_in_postgres ::
  "string option \<Rightarrow> 'a conn \<Rightarrow> string \<Rightarrow> 'a field_set \<Rightarrow> (string + unit) \<times> 'a conn" where
  "update_record_in_postgres tbl conn airtable_id flds =
     (let values = build_values_from_fields flds @ [PyStr airtable_id];
          query = build_update_query tbl
      in case cur_execute conn query values of
           (Inl e, c) \<Rightarrow> (Inl e, c)
         | (Inr _, c) \<Rightarrow> (Inr (), c))"

section \<open>Sync orchestrator\<close>

definition sync_airtable_record ::
  "string option \<Rightarrow> 'a conn \<Rightarrow> 'a AirtablePayload \<Rightarrow> (string + string) \<times> 'a conn" where
  "sync_airtable_record tbl conn payload =
     (let airtable_id = payload_id payload;
          flds = payload_fields payload
      in case find_record_by_id tbl conn airtable_id of
           (Inl e, c) \<Rightarrow> (Inl e, c)
         | (Inr existing, c) \<Rightarrow>
             (if existing = None then
                (case create_record_in_postgres tbl c airtable_id flds of
                   (Inl e, c') \<Rightarrow> (Inl e, c')
                 | (Inr _, c') \<Rightarrow> (Inr ''created record'', c'))
              else
                (case update_record_in_postgres tbl c airtable_id flds of
                   (Inl e, c') \<Rightarrow> (Inl e, c')
                 | (Inr _, c') \<Rightarrow> (Inr ''updated record'', c'))))"

section \<open>The webhook endpoint\<close>

text \<open>
  \<open>Success action\<close> is the body \<open>{"success": True, "action": action}\<close>;
  \<open>HTTPException code detail\<close> is \<open>HTTPException(status_code=code, detail=detail)\<close>;
  \<open>Unhandled msg\<close> is an exception with message \<open>msg\<close> that leaves the handler as it
  is: the framework answers it with a status 500 whose body does not carry \<open>msg\<close>.
\<close>

datatype response = Success string | HTTPException nat string | Unhandled string

text \<open>
  The \<open>except\<close> block for an exception with message \<open>e\<close>, followed by \<open>finally\<close>:
  \<open>conn.rollback()\<close> runs first, and only when it returns is the \<open>HTTPException\<close>
  raised; an exception of the rollback itself takes its place.
\<close>

definition except_block :: "string \<Rightarrow> 'a conn \<Rightarrow> response \<times> 'a conn" where
  "except_block e c =
     (case conn_rollback c of
        (Inl e', c') \<Rightarrow> (Unhandled e', conn_close c')
      | (Inr _, c') \<Rightarrow> (HTTPException 500 e, conn_close c'))"

text \<open>
  The handler from the outcome of the sync on: the commit inside the \<open>try\<close> block, the
  \<open>except\<close> block for an exception of the sync or of the commit, \<open>finally\<close>, and the
  response.
\<close>

definition after_sync :: "(string + string) \<times> 'a conn \<Rightarrow> response \<times> 'a conn" where
  "after_sync outcome =
     (case outcome of
        (Inl e, c) \<Rightarrow> except_block e c
      | (Inr action, c) \<Rightarrow>
          (case conn_commit c of
             (Inl e, c') \<Rightarrow> except_block e c'
           | (Inr _, c') \<Rightarrow> (Success action, conn_close c')))"

definition airtable_webhook ::
  "string option \<Rightarrow> 'a server \<Rightarrow> 'a AirtablePayload \<Rightarrow> response \<times> 'a conn" where
  "airtable_webhook tbl srv payload =
     (let conn = get_conn srv
      in after_sync (sync_airtable_record tbl conn payload))"

text \<open>The server as the next request finds it.\<close>

definition server_after :: "'a server \<Rightarrow> 'a conn \<Rightarrow> 'a server" where
  "server_after srv c = srv\<lparr>table := persisted c, script := faults c\<rparr>"

section \<open>Notions used to state the properties\<close>

text \<open>The rows of a table that carry the identifier \<open>i\<close>.\<close>

definition rows_with_id :: "'a table \<Rightarrow> string \<Rightarrow> 'a row list" where
  "rows_with_id t i = filter (row_matches ''airtable_id'' (PyStr i)) t"

text \<open>The environment lets every coming call go through.\<close>

definition calm :: "string option list \<Rightarrow> bool" where
  "calm fs = list_all (\<lambda>f. f = None) fs"

text \<open>A text made of letters, digits and underscores only.\<close>

definition plain :: "string \<Rightarrow> bool" where
  "plain w = list_all (\<lambda>c. c \<in> set word_chars) w"

text \<open>
  The configured table name is a plain name, it names the table of the database, and the
  table has the identifier column: the deployment the module is written for.
\<close>

definition serves :: "string option \<Rightarrow> 'a server \<Rightarrow> bool" where
  "serves tbl srv =
     (plain (fmt_name tbl) \<and> valid_name (fmt_name tbl) \<and>
      fold_case (fmt_name tbl) = table_name srv \<and>
      ''airtable_id'' \<in> set (table_columns srv))"

section \<open>Basic facts about the model\<close>

lemma FIELD_MAP_eval:
  "FIELD_MAP = [(''record_id'', ''record_id''), (''Startup name'', ''Startup name''),
     (''PH1_Constitution_Location'', ''PH1_Constitution_Location''),
     (''date_sourced'', ''date_sourced'')]"
  by (simp add: FIELD_MAP_def FIELDS_LIST_def)

lemma keys_FIELD_MAP: "dict_keys FIELD_MAP = FIELDS_LIST"
  by (simp add: FIELD_MAP_eval dict_keys_def FIELDS_LIST_def)

lemma values_FIELD_MAP: "dict_values FIELD_MAP = FIELDS_LIST"
  by (simp add: FIELD_MAP_eval dict_values_def FIELDS_LIST_def)

lemma build_values_eq: "build_values_from_fields flds = map (dict_get flds) FIELDS_LIST"
  by (simp add: build_values_from_fields_def keys_FIELD_MAP)

lemma length_build_values: "length (build_values_from_fields flds) = 4"
  by (simp add: build_values_eq FIELDS_LIST_def)

lemma distinct_FIELDS_LIST: "distinct FIELDS_LIST"
  by (simp add: FIELDS_LIST_def)

lemma insert_query_text:
  "build_insert_query tbl =
     nl @ ''        INSERT INTO '' @ fmt_name tbl @
     '' (airtable_id, record_id, Startup name, PH1_Constitution_Location, date_sourced)'' @
     nl @ ''        VALUES (%s, %s, %s, %s, %s)'' @
     nl @ ''    ''"
  by (simp add: build_insert_query_def insert_cols_def insert_placeholders_def
      values_FIELD_MAP FIELDS_LIST_def)

lemma update_query_text:
  "build_update_query tbl =
     nl @ ''        UPDATE '' @ fmt_name tbl @
     nl @ ''        SET record_id = %s, Startup name = %s, PH1_Constitution_Location = %s, date_sourced = %s'' @
     nl @ ''        WHERE airtable_id = %s'' @
     nl @ ''    ''"
  by (simp add: build_update_query_def update_cols_def values_FIELD_MAP FIELDS_LIST_def)

subsection \<open>Scanning\<close>

lemma word_char_plain:
  assumes "c \<in> set word_chars"
  shows "\<not> is_space c" and "c \<noteq> CHR ''%''" and "symbol c = None"
  using assms by (auto simp add: word_chars_def is_space_def symbol_def)

lemma scan_word_char:
  "c \<in> set word_chars \<Longrightarrow> st \<noteq> AfterPercent \<Longrightarrow>
   scan st (c # cs) = scan (InWord (open_word st @ [c])) cs"
  by (simp add: word_char_plain)

lemma scan_in_word:
  "plain w \<Longrightarrow> scan (InWord a) (w @ rest) = scan (InWord (a @ w)) rest"
proof (induction w arbitrary: a)
  case Nil
  then show ?case by simp
next
  case (Cons c w)
  then have c: "c \<in> set word_chars" and w: "plain w"
    by (simp_all add: plain_def)
  have "scan (InWord a) ((c # w) @ rest) = scan (InWord (a @ [c])) (w @ rest)"
    using scan_word_char [OF c, of "InWord a" "w @ rest"] by simp
  also have "\<dots> = scan (InWord ((a @ [c]) @ w)) rest"
    by (rule Cons.IH [OF w])
  finally show ?case by simp
qed

lemma scan_plain_word:
  assumes "plain w" and "w \<noteq> []"
  shows "scan Idle (w @ rest) = scan (InWord w) rest"
proof (cases w)
  case Nil
  with assms(2) show ?thesis by simp
next
  case (Cons c w')
  with assms(1) have c: "c \<in> set word_chars" and w': "plain w'"
    by (simp_all add: plain_def)
  have "scan Idle (w @ rest) = scan (InWord [c]) (w' @ rest)"
    using scan_word_char [OF c, of Idle "w' @ rest"] Cons by simp
  also have "\<dots> = scan (InWord ([c] @ w')) rest"
    by (rule scan_in_word [OF w'])
  finally show ?thesis using Cons by simp
qed

lemma scan_keeps_tail:
  assumes "is_space s" and "scan Idle rest = Some K"
  shows "scan st (w @ s # rest) = Some ts \<Longrightarrow> \<exists>T. ts = T @ K"
proof (induction w arbitrary: st ts)
  case Nil
  then show ?case
    using assms by (auto simp add: emit_def is_space_def split: if_splits)
next
  case (Cons c w)
  show ?case
  proof (cases "st = AfterPercent")
    case True
    with Cons.prems obtain us where "scan Idle (w @ s # rest) = Some us" and "ts = [Placeholder] @ us"
      by (auto simp add: emit_def split: if_splits option.splits)
    with Cons.IH [of Idle us] show ?thesis by auto
  next
    case False
    note st = False
    show ?thesis
    proof (cases "is_space c")
      case True
      with st Cons.prems obtain us where "scan Idle (w @ s # rest) = Some us"
        and "ts = flush st @ us"
        by (auto simp add: emit_def split: option.splits)
      with Cons.IH [of Idle us] show ?thesis by auto
    next
      case False
      note sp = False
      show ?thesis
      proof (cases "c = CHR ''%''")
        case True
        with st sp Cons.prems obtain us where "scan AfterPercent (w @ s # rest) = Some us"
          and "ts = flush st @ us"
          by (auto simp add: emit_def split: option.splits)
        with Cons.IH [of AfterPercent us] show ?thesis by auto
      next
        case False
        note pc = False
        show ?thesis
        proof (cases "symbol c")
          case (Some t)
          with st sp pc Cons.prems obtain us where "scan Idle (w @ s # rest) = Some us"
            and "ts = (flush st @ [t]) @ us"
            by (auto simp add: emit_def split: option.splits)
          with Cons.IH [of Idle us] show ?thesis by auto
        next
          case None
          with st sp pc Cons.prems
          have "scan (InWord (open_word st @ [c])) (w @ s # rest) = Some ts"
            by (auto split: if_splits)
          with Cons.IH [of "InWord (open_word st @ [c])" ts] show ?thesis by auto
        qed
      qed
    qed
  qed
qed

lemma stray_word_tail:
  "stray_word K = Some x \<Longrightarrow> stray_word (T @ K) \<noteq> None"
proof (induction T)
  case Nil
  then show ?case by simp
next
  case (Cons t T)
  then show ?case by (cases "T @ K") auto
qed


subsection \<open>Reading the three statements\<close>

lemma reserved_words:
  "keyword ''SELECT''" "keyword ''FROM''" "keyword ''WHERE''" "keyword ''INSERT''"
  "keyword ''INTO''" "keyword ''VALUES''" "keyword ''UPDATE''" "keyword ''SET''"
  by (simp_all add: keyword_def fold_case_def lower_def)

lemma free_words:
  "\<not> keyword ''airtable_id''" "\<not> keyword ''record_id''" "\<not> keyword ''Startup''"
  "\<not> keyword ''name''" "\<not> keyword ''PH1_Constitution_Location''"
  "\<not> keyword ''date_sourced''"
  by (simp_all add: keyword_def fold_case_def lower_def)

lemma scan_update_tail:
  "scan Idle (''        SET record_id = %s, Startup name = %s, PH1_Constitution_Location = %s, date_sourced = %s'' @
     nl @ ''        WHERE airtable_id = %s'' @ nl @ ''    '') =
   Some [Word ''SET'', Word ''record_id'', Equals, Placeholder, Comma,
         Word ''Startup'', Word ''name'', Equals, Placeholder, Comma,
         Word ''PH1_Constitution_Location'', Equals, Placeholder, Comma,
         Word ''date_sourced'', Equals, Placeholder,
         Word ''WHERE'', Word ''airtable_id'', Equals, Placeholder]"
  by (simp add: nl_def is_space_def symbol_def word_chars_def emit_def)

lemma scan_insert_tail:
  "scan Idle (''(airtable_id, record_id, Startup name, PH1_Constitution_Location, date_sourced)'' @
     nl @ ''        VALUES (%s, %s, %s, %s, %s)'' @ nl @ ''    '') =
   Some [LParen, Word ''airtable_id'', Comma, Word ''record_id'', Comma,
         Word ''Startup'', Word ''name'', Comma,
         Word ''PH1_Constitution_Location'', Comma, Word ''date_sourced'', RParen,
         Word ''VALUES'', LParen, Placeholder, Comma, Placeholder, Comma, Placeholder, Comma,
         Placeholder, Comma, Placeholder, RParen]"
  by (simp add: nl_def is_space_def symbol_def word_chars_def emit_def)

lemma scan_after_word:
  "is_space s \<Longrightarrow> scan (InWord w) (s # rest) = emit [Word w] (scan Idle rest)"
  by simp

lemma scan_update_plain:
  assumes "plain (fmt_name tbl)"
  shows "scan Idle (build_update_query tbl) =
    Some (Word ''UPDATE'' # (if fmt_name tbl = [] then [] else [Word (fmt_name tbl)]) @
      [Word ''SET'', Word ''record_id'', Equals, Placeholder, Comma,
       Word ''Startup'', Word ''name'', Equals, Placeholder, Comma,
       Word ''PH1_Constitution_Location'', Equals, Placeholder, Comma,
       Word ''date_sourced'', Equals, Placeholder,
       Word ''WHERE'', Word ''airtable_id'', Equals, Placeholder])"
proof -
  let ?tail = "''        SET record_id = %s, Startup name = %s, PH1_Constitution_Location = %s, date_sourced = %s'' @
     nl @ ''        WHERE airtable_id = %s'' @ nl @ ''    ''"
  have shape: "build_update_query tbl =
      (nl @ ''        UPDATE '') @ fmt_name tbl @ CHR 0x0A # ?tail"
    by (simp add: update_query_text nl_def)
  have head: "\<And>x. scan Idle ((nl @ ''        UPDATE '') @ x) = emit [Word ''UPDATE''] (scan Idle x)"
    by (simp add: nl_def is_space_def symbol_def word_chars_def emit_def split: option.splits)
  have sp: "is_space (CHR 0x0A)"
    by (simp add: is_space_def)
  have "scan Idle (fmt_name tbl @ CHR 0x0A # ?tail) =
          emit (if fmt_name tbl = [] then [] else [Word (fmt_name tbl)]) (scan Idle ?tail)"
  proof (cases "fmt_name tbl = []")
    case True
    then show ?thesis by (simp add: sp emit_def split: option.splits)
  next
    case False
    then show ?thesis
      by (simp only: scan_plain_word [OF assms False] scan_after_word [OF sp] if_False)
  qed
  then show ?thesis
    by (simp only: shape head scan_update_tail) (simp add: emit_def)
qed

lemma update_rejected:
  assumes "plain (fmt_name tbl)"
  shows "pg_parse (build_update_query tbl) = Inl (error_near ''name'')"
  by (simp add: pg_parse_def scan_update_plain [OF assms] reserved_words free_words)

lemma update_never_parses: "\<exists>e. pg_parse (build_update_query tbl) = Inl e"
proof -
  let ?tail = "''        SET record_id = %s, Startup name = %s, PH1_Constitution_Location = %s, date_sourced = %s'' @
     nl @ ''        WHERE airtable_id = %s'' @ nl @ ''    ''"
  let ?K = "[Word ''SET'', Word ''record_id'', Equals, Placeholder, Comma,
         Word ''Startup'', Word ''name'', Equals, Placeholder, Comma,
         Word ''PH1_Constitution_Location'', Equals, Placeholder, Comma,
         Word ''date_sourced'', Equals, Placeholder,
         Word ''WHERE'', Word ''airtable_id'', Equals, Placeholder]"
  have shape: "build_update_query tbl =
      (nl @ ''        UPDATE '') @ fmt_name tbl @ CHR 0x0A # ?tail"
    by (simp add: update_query_text nl_def)
  have sp: "is_space (CHR 0x0A)"
    by (simp add: is_space_def)
  have stray: "stray_word ?K = Some ''name''"
    by (simp add: reserved_words free_words)
  show ?thesis
  proof (cases "scan Idle (build_update_query tbl)")
    case None
    then show ?thesis by (simp add: pg_parse_def)
  next
    case (Some ts)
    then have "scan Idle (((nl @ ''        UPDATE '') @ fmt_name tbl) @ CHR 0x0A # ?tail) = Some ts"
      by (simp only: shape append_assoc)
    from scan_keeps_tail [OF sp scan_update_tail this]
    obtain T where "ts = T @ ?K" by blast
    with stray_word_tail [OF stray, of T] obtain x where "stray_word ts = Some x"
      by auto
    with Some show ?thesis by (simp add: pg_parse_def)
  qed
qed

lemma scan_insert_plain:
  assumes "plain (fmt_name tbl)"
  shows "scan Idle (build_insert_query tbl) =
    Some (Word ''INSERT'' # Word ''INTO'' #
      (if fmt_name tbl = [] then [] else [Word (fmt_name tbl)]) @
      [LParen, Word ''airtable_id'', Comma, Word ''record_id'', Comma,
       Word ''Startup'', Word ''name'', Comma,
       Word ''PH1_Constitution_Location'', Comma, Word ''date_sourced'', RParen,
       Word ''VALUES'', LParen, Placeholder, Comma, Placeholder, Comma, Placeholder, Comma,
       Placeholder, Comma, Placeholder, RParen])"
proof -
  let ?tail = "''(airtable_id, record_id, Startup name, PH1_Constitution_Location, date_sourced)'' @
     nl @ ''        VALUES (%s, %s, %s, %s, %s)'' @ nl @ ''    ''"
  have shape: "build_insert_query tbl =
      (nl @ ''        INSERT INTO '') @ fmt_name tbl @ CHR '' '' # ?tail"
    by (simp add: insert_query_text nl_def)
  have head: "\<And>x. scan Idle ((nl @ ''        INSERT INTO '') @ x) =
                  emit [Word ''INSERT'', Word ''INTO''] (scan Idle x)"
    by (simp add: nl_def is_space_def symbol_def word_chars_def emit_def split: option.splits)
  have sp: "is_space (CHR '' '')"
    by (simp add: is_space_def)
  note tail = scan_insert_tail
  have "scan Idle (fmt_name tbl @ CHR '' '' # ?tail) =
          emit (if fmt_name tbl = [] then [] else [Word (fmt_name tbl)]) (scan Idle ?tail)"
  proof (cases "fmt_name tbl = []")
    case True
    then show ?thesis by (simp add: sp emit_def split: option.splits)
  next
    case False
    then show ?thesis
      by (simp only: scan_plain_word [OF assms False] scan_after_word [OF sp] if_False)
  qed
  then show ?thesis
    by (simp only: shape head tail) (simp add: emit_def)
qed

lemma insert_rejected:
  assumes "plain (fmt_name tbl)"
  shows "pg_parse (build_insert_query tbl) = Inl (error_near ''name'')"
  by (simp add: pg_parse_def scan_insert_plain [OF assms] reserved_words free_words)

lemma scan_select_plain:
  assumes "plain (fmt_name tbl)" and "fmt_name tbl \<noteq> []"
  shows "scan Idle (select_query tbl) =
    Some [Word ''SELECT'', Star, Word ''FROM'', Word (fmt_name tbl),
          Word ''WHERE'', Word ''airtable_id'', Equals, Placeholder]"
proof -
  have shape: "select_query tbl = ''SELECT * FROM '' @ fmt_name tbl @ CHR '' '' # ''WHERE airtable_id = %s''"
    by (simp add: select_query_def)
  have head: "\<And>x. scan Idle (''SELECT * FROM '' @ x) =
                  emit [Word ''SELECT'', Star, Word ''FROM''] (scan Idle x)"
    by (simp add: is_space_def symbol_def word_chars_def emit_def split: option.splits)
  have sp: "is_space (CHR '' '')"
    by (simp add: is_space_def)
  have tail: "scan Idle ''WHERE airtable_id = %s'' =
                Some [Word ''WHERE'', Word ''airtable_id'', Equals, Placeholder]"
    by (simp add: is_space_def symbol_def word_chars_def emit_def)
  have "scan Idle (fmt_name tbl @ CHR '' '' # ''WHERE airtable_id = %s'') =
          emit [Word (fmt_name tbl)] (scan Idle ''WHERE airtable_id = %s'')"
    by (simp only: scan_plain_word [OF assms] scan_after_word [OF sp])
  then show ?thesis
    by (simp only: shape head tail) (simp add: emit_def)
qed

lemma select_parses:
  assumes "plain (fmt_name tbl)" and "valid_name (fmt_name tbl)"
  shows "pg_parse (select_query tbl) = Inr (Select (fmt_name tbl) ''airtable_id'')"
proof -
  have ne: "fmt_name tbl \<noteq> []"
    using assms(2) by (auto simp add: valid_name_def)
  have v: "valid_name ''airtable_id''"
    by (simp add: valid_name_def free_words)
  have k: "is_kw ''select'' ''SELECT''" "is_kw ''from'' ''FROM''" "is_kw ''where'' ''WHERE''"
    by (simp_all add: is_kw_def fold_case_def lower_def)
  show ?thesis
    using assms(2)
    by (simp add: pg_parse_def scan_select_plain [OF assms(1) ne] reserved_words free_words
        statement_def select_stmt_def k v)
qed

subsection \<open>Counting placeholders\<close>

lemma count_placeholders_skip:
  "CHR ''%'' \<notin> set xs \<Longrightarrow> count_placeholders (xs @ ys) = count_placeholders ys"
proof (induction xs)
  case Nil
  then show ?case by simp
next
  case (Cons x xs)
  then show ?case by (cases "xs @ ys") auto
qed

lemma plain_no_percent: "plain w \<Longrightarrow> CHR ''%'' \<notin> set w"
  using word_char_plain(2) by (auto simp add: plain_def list_all_iff)

lemma count_insert_placeholders:
  assumes "CHR ''%'' \<notin> set (fmt_name tbl)"
  shows "count_placeholders (build_insert_query tbl) = 5"
proof -
  let ?pre = "nl @ ''        INSERT INTO '' @ fmt_name tbl @
     '' (airtable_id, record_id, Startup name, PH1_Constitution_Location, date_sourced)'' @
     nl @ ''        VALUES (''"
  let ?suf = "''%s, %s, %s, %s, %s)'' @ nl @ ''    ''"
  have split: "build_insert_query tbl = ?pre @ ?suf"
    by (simp add: insert_query_text)
  have "CHR ''%'' \<notin> set ?pre"
    using assms by (simp add: nl_def)
  then have "count_placeholders (?pre @ ?suf) = count_placeholders ?suf"
    by (rule count_placeholders_skip)
  also have "\<dots> = 5"
    by (simp add: nl_def)
  finally show ?thesis
    by (simp only: split)
qed

lemma count_update_placeholders:
  assumes "CHR ''%'' \<notin> set (fmt_name tbl)"
  shows "count_placeholders (build_update_query tbl) = 5"
proof -
  let ?pre = "nl @ ''        UPDATE '' @ fmt_name tbl @ nl @ ''        SET record_id = ''"
  let ?suf = "''%s, Startup name = %s, PH1_Constitution_Location = %s, date_sourced = %s'' @
     nl @ ''        WHERE airtable_id = %s'' @ nl @ ''    ''"
  have split: "build_update_query tbl = ?pre @ ?suf"
    by (simp add: update_query_text)
  have "CHR ''%'' \<notin> set ?pre"
    using assms by (simp add: nl_def)
  then have "count_placeholders (?pre @ ?suf) = count_placeholders ?suf"
    by (rule count_placeholders_skip)
  also have "\<dots> = 5"
    by (simp add: nl_def)
  finally show ?thesis
    by (simp only: split)
qed

lemma count_select_placeholders:
  assumes "CHR ''%'' \<notin> set (fmt_name tbl)"
  shows "count_placeholders (select_query tbl) = 1"
proof -
  let ?pre = "''SELECT * FROM '' @ fmt_name tbl @ '' WHERE airtable_id = ''"
  have split: "select_query tbl = ?pre @ ''%s''"
    by (simp add: select_query_def)
  have "CHR ''%'' \<notin> set ?pre"
    using assms by simp
  then have "count_placeholders (?pre @ ''%s'') = count_placeholders ''%s''"
    by (rule count_placeholders_skip)
  then show ?thesis
    by (simp only: split) simp
qed

subsection \<open>The environment\<close>

lemma next_outcome_snd: "snd (next_outcome c) = c\<lparr>faults := tl (faults c)\<rparr>"
  by (cases "faults c") (simp_all add: next_outcome_def)

lemma next_outcome_calm: "calm (faults c) \<Longrightarrow> fst (next_outcome c) = None"
  by (cases "faults c") (simp_all add: next_outcome_def calm_def)

lemma calm_tl: "calm fs \<Longrightarrow> calm (tl fs)"
  by (cases fs) (simp_all add: calm_def)

subsection \<open>Executing\<close>

lemma execute_trace:
  "trace (snd (cur_execute c q ps)) = trace c @ [Execute q ps]"
  by (simp add: cur_execute_def Let_def case_prod_beta next_outcome_snd
      split: option.splits sum.splits)

lemma execute_persisted:
  "persisted (snd (cur_execute c q ps)) = persisted c"
  by (simp add: cur_execute_def Let_def case_prod_beta next_outcome_snd
      split: option.splits sum.splits)

lemma execute_unbound:
  "bind_error q ps = Some msg \<Longrightarrow>
   cur_execute c q ps = (Inl msg, c\<lparr>trace := trace c @ [Execute q ps]\<rparr>)"
  by (simp add: cur_execute_def)

lemma execute_unread:
  assumes "bind_error q ps = None" and "calm (faults c)" and "pg_parse q = Inl msg"
  shows "cur_execute c q ps =
           (Inl msg, c\<lparr>trace := trace c @ [Execute q ps], faults := tl (faults c)\<rparr>)"
  using assms
  by (simp add: cur_execute_def Let_def case_prod_beta next_outcome_snd next_outcome_calm)

lemma execute_never:
  assumes "pg_parse q = Inl msg"
  shows "isl (fst (cur_execute c q ps))" and "pending (snd (cur_execute c q ps)) = pending c"
  using assms
  by (simp_all add: cur_execute_def Let_def case_prod_beta next_outcome_snd
      split: option.splits)

lemma execute_run:
  assumes "bind_error q ps = None" and "calm (faults c)" and "pg_parse q = Inr s"
    and "run_stmt (relation c) (columns_of c) s ps (pending c) = Inr (rs, t')"
  shows "cur_execute c q ps =
           (Inr rs, c\<lparr>trace := trace c @ [Execute q ps], faults := tl (faults c),
                      pending := t'\<rparr>)"
  using assms
  by (simp add: cur_execute_def Let_def case_prod_beta next_outcome_snd next_outcome_calm)

lemma bind_insert:
  "CHR ''%'' \<notin> set (fmt_name tbl) \<Longrightarrow>
   bind_error (build_insert_query tbl) ([PyStr i] @ build_values_from_fields flds) = None"
  by (simp add: bind_error_def count_insert_placeholders length_build_values)

lemma bind_update:
  "CHR ''%'' \<notin> set (fmt_name tbl) \<Longrightarrow>
   bind_error (build_update_query tbl) (build_values_from_fields flds @ [PyStr i]) = None"
  by (simp add: bind_error_def count_update_placeholders length_build_values)

lemma bind_select:
  "CHR ''%'' \<notin> set (fmt_name tbl) \<Longrightarrow> bind_error (select_query tbl) [p] = None"
  by (simp add: bind_error_def count_select_placeholders)

subsection \<open>The accessor\<close>

lemma find_snd:
  "snd (find_record_by_id tbl c i) = snd (cur_execute c (select_query tbl) [PyStr i])"
  by (cases "cur_execute c (select_query tbl) [PyStr i]")
    (auto simp add: find_record_by_id_def split: sum.splits)

lemma create_snd:
  "snd (create_record_in_postgres tbl c i flds) =
     snd (cur_execute c (build_insert_query tbl)
            ([PyStr i] @ build_values_from_fields flds))"
  by (cases "cur_execute c (build_insert_query tbl)
               ([PyStr i] @ build_values_from_fields flds)")
    (auto simp add: create_record_in_postgres_def split: sum.splits)

lemma update_snd:
  "snd (update_record_in_postgres tbl c i flds) =
     snd (cur_execute c (build_update_query tbl)
            (build_values_from_fields flds @ [PyStr i]))"
  by (cases "cur_execute c (build_update_query tbl)
               (build_values_from_fields flds @ [PyStr i])")
    (auto simp add: update_record_in_postgres_def split: sum.splits)

lemma update_fst:
  "isl (fst (update_record_in_postgres tbl c i flds)) =
     isl (fst (cur_execute c (build_update_query tbl)
                 (build_values_from_fields flds @ [PyStr i])))"
  by (cases "cur_execute c (build_update_query tbl)
               (build_values_from_fields flds @ [PyStr i])")
    (auto simp add: update_record_in_postgres_def split: sum.splits)

lemma create_trace:
  "trace (snd (create_record_in_postgres tbl c i flds)) =
     trace c @ [Execute (build_insert_query tbl) ([PyStr i] @ build_values_from_fields flds)]"
  by (simp add: create_snd execute_trace)

lemma update_trace:
  "trace (snd (update_record_in_postgres tbl c i flds)) =
     trace c @ [Execute (build_update_query tbl) (build_values_from_fields flds @ [PyStr i])]"
  by (simp add: update_snd execute_trace)

lemma find_trace:
  "trace (snd (find_record_by_id tbl c i)) = trace c @ [Execute (select_query tbl) [PyStr i]]"
  by (simp add: find_snd execute_trace)

lemma update_persisted:
  "persisted (snd (update_record_in_postgres tbl c i flds)) = persisted c"
  by (simp add: update_snd execute_persisted)

lemma update_always_fails:
  "isl (fst (update_record_in_postgres tbl c i flds))"
  and update_pending: "pending (snd (update_record_in_postgres tbl c i flds)) = pending c"
proof -
  obtain e where e: "pg_parse (build_update_query tbl) = Inl e"
    using update_never_parses by blast
  show "isl (fst (update_record_in_postgres tbl c i flds))"
    by (simp add: update_fst execute_never(1) [OF e])
  show "pending (snd (update_record_in_postgres tbl c i flds)) = pending c"
    by (simp add: update_snd execute_never(2) [OF e])
qed

lemma fold_airtable_id: "fold_case ''airtable_id'' = ''airtable_id''"
  by (simp add: fold_case_def lower_def)

lemma fetchone_None: "fetchone rs = None \<longleftrightarrow> rs = []"
  by (cases rs) (simp_all add: fetchone_def)

lemma find_goes_through:
  assumes "calm (faults c)" and "plain (fmt_name tbl)" and "valid_name (fmt_name tbl)"
    and "fold_case (fmt_name tbl) = relation c" and "''airtable_id'' \<in> set (columns_of c)"
  shows "find_record_by_id tbl c i =
           (Inr (fetchone (rows_with_id (pending c) i)),
            c\<lparr>trace := trace c @ [Execute (select_query tbl) [PyStr i]],
              faults := tl (faults c)\<rparr>)"
proof -
  have b: "bind_error (select_query tbl) [PyStr i] = None"
    by (rule bind_select) (rule plain_no_percent [OF assms(2)])
  have r: "run_stmt (relation c) (columns_of c) (Select (fmt_name tbl) ''airtable_id'')
             [PyStr i] (pending c) = Inr (rows_with_id (pending c) i, pending c)"
    using assms(4,5) by (simp add: fold_airtable_id rows_with_id_def)
  show ?thesis
    using execute_run [OF b assms(1) select_parses [OF assms(2,3)] r]
    by (simp add: find_record_by_id_def)
qed

lemma create_is_rejected:
  assumes "calm (faults c)" and "plain (fmt_name tbl)"
  shows "create_record_in_postgres tbl c i flds =
           (Inl (error_near ''name''),
            c\<lparr>trace := trace c @
                 [Execute (build_insert_query tbl)
                    ([PyStr i] @ build_values_from_fields flds)],
              faults := tl (faults c)\<rparr>)"
proof -
  have b: "bind_error (build_insert_query tbl) ([PyStr i] @ build_values_from_fields flds) = None"
    by (rule bind_insert) (rule plain_no_percent [OF assms(2)])
  show ?thesis
    using execute_unread [OF b assms(1) insert_rejected [OF assms(2)]]
    by (simp add: create_record_in_postgres_def)
qed

lemma update_is_rejected:
  assumes "calm (faults c)" and "plain (fmt_name tbl)"
  shows "update_record_in_postgres tbl c i flds =
           (Inl (error_near ''name''),
            c\<lparr>trace := trace c @
                 [Execute (build_update_query tbl)
                    (build_values_from_fields flds @ [PyStr i])],
              faults := tl (faults c)\<rparr>)"
proof -
  have b: "bind_error (build_update_query tbl) (build_values_from_fields flds @ [PyStr i]) = None"
    by (rule bind_update) (rule plain_no_percent [OF assms(2)])
  show ?thesis
    using execute_unread [OF b assms(1) update_rejected [OF assms(2)]]
    by (simp add: update_record_in_postgres_def)
qed

subsection \<open>The sync and the handler\<close>

lemma sync_create_rejected:
  assumes "calm (faults c)" and "plain (fmt_name tbl)" and "valid_name (fmt_name tbl)"
    and "fold_case (fmt_name tbl) = relation c" and "''airtable_id'' \<in> set (columns_of c)"
    and "rows_with_id (pending c) (payload_id p) = []"
  shows "sync_airtable_record tbl c p =
           (Inl (error_near ''name''),
            c\<lparr>trace := trace c @
                 [Execute (select_query tbl) [PyStr (payload_id p)],
                  Execute (build_insert_query tbl)
                    ([PyStr (payload_id p)] @ build_values_from_fields (payload_fields p))],
              faults := tl (tl (faults c))\<rparr>)"
proof -
  let ?c1 = "c\<lparr>trace := trace c @ [Execute (select_query tbl) [PyStr (payload_id p)]],
                faults := tl (faults c)\<rparr>"
  have calm1: "calm (faults ?c1)"
    using assms(1) by (simp add: calm_tl)
  show ?thesis
    using assms(6)
    by (simp add: sync_airtable_record_def Let_def find_goes_through [OF assms(1-5)]
        fetchone_None create_is_rejected [OF calm1 assms(2)])
qed

lemma sync_update_rejected:
  assumes "calm (faults c)" and "plain (fmt_name tbl)" and "valid_name (fmt_name tbl)"
    and "fold_case (fmt_name tbl) = relation c" and "''airtable_id'' \<in> set (columns_of c)"
    and "rows_with_id (pending c) (payload_id p) \<noteq> []"
  shows "sync_airtable_record tbl c p =
           (Inl (error_near ''name''),
            c\<lparr>trace := trace c @
                 [Execute (select_query tbl) [PyStr (payload_id p)],
                  Execute (build_update_query tbl)
                    (build_values_from_fields (payload_fields p) @ [PyStr (payload_id p)])],
              faults := tl (tl (faults c))\<rparr>)"
proof -
  let ?c1 = "c\<lparr>trace := trace c @ [Execute (select_query tbl) [PyStr (payload_id p)]],
                faults := tl (faults c)\<rparr>"
  have calm1: "calm (faults ?c1)"
    using assms(1) by (simp add: calm_tl)
  show ?thesis
    using assms(6)
    by (simp add: sync_airtable_record_def Let_def find_goes_through [OF assms(1-5)]
        fetchone_None update_is_rejected [OF calm1 assms(2)])
qed

lemma sync_snd_cases:
  "snd (sync_airtable_record tbl c p) = snd (find_record_by_id tbl c (payload_id p)) \<or>
   snd (sync_airtable_record tbl c p) =
     snd (create_record_in_postgres tbl (snd (find_record_by_id tbl c (payload_id p)))
            (payload_id p) (payload_fields p)) \<or>
   snd (sync_airtable_record tbl c p) =
     snd (update_record_in_postgres tbl (snd (find_record_by_id tbl c (payload_id p)))
            (payload_id p) (payload_fields p))"
  by (auto simp add: sync_airtable_record_def Let_def split: prod.splits sum.splits)

lemma sync_persisted:
  "persisted (snd (sync_airtable_record tbl c p)) = persisted c"
  using sync_snd_cases [of tbl c p]
  by (auto simp add: find_snd create_snd update_snd execute_persisted)

lemma commit_cases:
  "conn_commit c =
     (Inr (), c\<lparr>trace := trace c @ [Commit], faults := tl (faults c),
                persisted := pending c\<rparr>) \<or>
   (\<exists>e. conn_commit c =
     (Inl e, c\<lparr>trace := trace c @ [Commit], faults := tl (faults c)\<rparr>))"
  by (simp add: conn_commit_def case_prod_beta next_outcome_snd split: option.splits)

lemma rollback_cases:
  "conn_rollback c =
     (Inr (), c\<lparr>trace := trace c @ [Rollback], faults := tl (faults c),
                pending := persisted c\<rparr>) \<or>
   (\<exists>e. conn_rollback c =
     (Inl e, c\<lparr>trace := trace c @ [Rollback], faults := tl (faults c)\<rparr>))"
  by (simp add: conn_rollback_def case_prod_beta next_outcome_snd split: option.splits)

lemma commit_goes_through:
  assumes "calm (faults c)"
  shows "conn_commit c =
           (Inr (), c\<lparr>trace := trace c @ [Commit], faults := tl (faults c),
                      persisted := pending c\<rparr>)"
  using assms
  by (simp add: conn_commit_def case_prod_beta next_outcome_snd next_outcome_calm)

lemma rollback_goes_through:
  assumes "calm (faults c)"
  shows "conn_rollback c =
           (Inr (), c\<lparr>trace := trace c @ [Rollback], faults := tl (faults c),
                      pending := persisted c\<rparr>)"
  using assms
  by (simp add: conn_rollback_def case_prod_beta next_outcome_snd next_outcome_calm)

lemma except_block_facts:
  "closed (snd (except_block e c))"
  "persisted (snd (except_block e c)) = persisted c"
  "take (length (trace c) + 1) (trace (snd (except_block e c))) = trace c @ [Rollback]"
  "last (trace (snd (except_block e c))) = Close"
  using rollback_cases [of c]
  by (auto simp add: except_block_def conn_close_def)

lemma except_block_rolled_back:
  "conn_rollback c = (Inr u, c') \<Longrightarrow>
   except_block e c = (HTTPException 500 e, conn_close c')"
  by (simp add: except_block_def)

lemma except_block_rollback_raises:
  "conn_rollback c = (Inl e', c') \<Longrightarrow> except_block e c = (Unhandled e', conn_close c')"
  by (simp add: except_block_def)

lemma except_block_calm:
  assumes "calm (faults c)"
  shows "except_block e c =
           (HTTPException 500 e,
            c\<lparr>trace := trace c @ [Rollback, Close], faults := tl (faults c),
              pending := persisted c, closed := True\<rparr>)"
  by (simp add: except_block_def rollback_goes_through [OF assms] conn_close_def)

lemma webhook_create_rejected:
  assumes "calm (script srv)" and "serves tbl srv"
    and "rows_with_id (table srv) (payload_id p) = []"
  shows "airtable_webhook tbl srv p =
           (HTTPException 500 (error_near ''name''),
            \<lparr>relation = table_name srv, columns_of = table_columns srv,
             persisted = table srv, pending = table srv,
             faults = tl (tl (tl (script srv))),
             trace = [Execute (select_query tbl) [PyStr (payload_id p)],
                      Execute (build_insert_query tbl)
                        ([PyStr (payload_id p)] @ build_values_from_fields (payload_fields p)),
                      Rollback, Close],
             closed = True\<rparr>)"
proof -
  let ?c = "get_conn srv"
  have c0: "calm (faults ?c)" "plain (fmt_name tbl)" "valid_name (fmt_name tbl)"
    "fold_case (fmt_name tbl) = relation ?c" "''airtable_id'' \<in> set (columns_of ?c)"
    "rows_with_id (pending ?c) (payload_id p) = []"
    using assms by (simp_all add: get_conn_def serves_def)
  have c2: "calm (tl (tl (faults ?c)))"
    using assms(1) by (simp add: calm_tl get_conn_def)
  show ?thesis
    by (simp add: airtable_webhook_def after_sync_def sync_create_rejected [OF c0]
        except_block_calm c2)
      (simp add: get_conn_def)
qed

lemma webhook_update_rejected:
  assumes "calm (script srv)" and "serves tbl srv"
    and "rows_with_id (table srv) (payload_id p) \<noteq> []"
  shows "airtable_webhook tbl srv p =
           (HTTPException 500 (error_near ''name''),
            \<lparr>relation = table_name srv, columns_of = table_columns srv,
             persisted = table srv, pending = table srv,
             faults = tl (tl (tl (script srv))),
             trace = [Execute (select_query tbl) [PyStr (payload_id p)],
                      Execute (build_update_query tbl)
                        (build_values_from_fields (payload_fields p) @ [PyStr (payload_id p)]),
                      Rollback, Close],
             closed = True\<rparr>)"
proof -
  let ?c = "get_conn srv"
  have c0: "calm (faults ?c)" "plain (fmt_name tbl)" "valid_name (fmt_name tbl)"
    "fold_case (fmt_name tbl) = relation ?c" "''airtable_id'' \<in> set (columns_of ?c)"
    "rows_with_id (pending ?c) (payload_id p) \<noteq> []"
    using assms by (simp_all add: get_conn_def serves_def)
  have c2: "calm (tl (tl (faults ?c)))"
    using assms(1) by (simp add: calm_tl get_conn_def)
  show ?thesis
    by (simp add: airtable_webhook_def after_sync_def sync_update_rejected [OF c0]
        except_block_calm c2)
      (simp add: get_conn_def)
qed

section \<open>The field mapper\<close>

text \<open>
  Claim C2, as amended. For every field set, \<open>build_values_from_fields\<close> returns one value
  per mapped field name, in the order of \<open>FIELDS_LIST\<close> (whose names are distinct): the
  entry for a name is the value the field set binds to it, and the null value when the
  name is missing. So an entry is null when its name is missing or is bound to null. The
  function is total: no field set makes it fail.
\<close>

theorem build_values_per_mapped_field:
  "dict_keys FIELD_MAP = FIELDS_LIST \<and> distinct FIELDS_LIST \<and>
   length (build_values_from_fields flds) = length FIELDS_LIST \<and>
   (\<forall>i < length FIELDS_LIST.
      build_values_from_fields flds ! i =
        (case flds (FIELDS_LIST ! i) of None \<Rightarrow> PyNone | Some v \<Rightarrow> v) \<and>
      (build_values_from_fields flds ! i = PyNone \<longleftrightarrow>
         flds (FIELDS_LIST ! i) = None \<or> flds (FIELDS_LIST ! i) = Some PyNone))"
  by (auto simp add: keys_FIELD_MAP distinct_FIELDS_LIST build_values_eq dict_get_def
      split: option.splits)

text \<open>The second mapped field of a field set that binds only \<open>Startup name\<close>.\<close>

theorem build_values_per_mapped_field_witness:
  "(1::nat) < length FIELDS_LIST \<and>
   build_values_from_fields [''Startup name'' \<mapsto> PyStr ''Acme'' :: unit pyval] ! 1
     = PyStr ''Acme'' \<and>
   length (build_values_from_fields [''Startup name'' \<mapsto> PyStr ''Acme'' :: unit pyval]) = 4"
proof -
  let ?f = "[''Startup name'' \<mapsto> PyStr ''Acme'' :: unit pyval]"
  have h: "(1::nat) < length FIELDS_LIST"
    by (simp add: FIELDS_LIST_def)
  have "build_values_from_fields ?f ! 1 =
          (case ?f (FIELDS_LIST ! 1) of None \<Rightarrow> PyNone | Some v \<Rightarrow> v)"
    using build_values_per_mapped_field [of ?f] h by blast
  moreover have "length (build_values_from_fields ?f) = length FIELDS_LIST"
    using build_values_per_mapped_field [of ?f] by blast
  ultimately show ?thesis
    using h by (simp add: FIELDS_LIST_def)
qed

text \<open>
  As first stated, claim C2 has an entry null exactly when the field set lacks the name.
  A field set that binds \<open>record_id\<close> to null has the name, and its entry is null.
\<close>

theorem null_exactly_when_absent_counterexample:
  "\<not> (build_values_from_fields [''record_id'' \<mapsto> (PyNone :: unit pyval)] ! 0 = PyNone
       \<longleftrightarrow> [''record_id'' \<mapsto> (PyNone :: unit pyval)] (FIELDS_LIST ! 0) = None)"
  by (simp add: build_values_eq FIELDS_LIST_def dict_get_def)

text \<open>
  Claim C3. Two field sets that agree on every mapped field name give the same value
  list, the same statement and parameters sent by \<open>create\<close> and by \<open>update\<close> (the
  connection they return holds the trace of what was sent), and the same run of the whole
  webhook: keys outside the mapping have no influence and raise nothing.
\<close>

theorem unmapped_fields_have_no_influence:
  assumes "\<forall>k \<in> set FIELDS_LIST. f1 k = f2 k"
  shows "build_values_from_fields f1 = build_values_from_fields f2 \<and>
         create_record_in_postgres tbl c i f1 = create_record_in_postgres tbl c i f2 \<and>
         update_record_in_postgres tbl c i f1 = update_record_in_postgres tbl c i f2 \<and>
         airtable_webhook tbl srv \<lparr>payload_id = i, payload_fields = f1\<rparr> =
         airtable_webhook tbl srv \<lparr>payload_id = i, payload_fields = f2\<rparr>"
proof -
  have vals: "build_values_from_fields f1 = build_values_from_fields f2"
    using assms by (simp add: build_values_eq dict_get_def)
  have cr: "\<And>c. create_record_in_postgres tbl c i f1 = create_record_in_postgres tbl c i f2"
    by (simp add: create_record_in_postgres_def vals)
  have up: "\<And>c. update_record_in_postgres tbl c i f1 = update_record_in_postgres tbl c i f2"
    by (simp add: update_record_in_postgres_def vals)
  have "\<And>c. sync_airtable_record tbl c \<lparr>payload_id = i, payload_fields = f1\<rparr> =
             sync_airtable_record tbl c \<lparr>payload_id = i, payload_fields = f2\<rparr>"
    by (simp add: sync_airtable_record_def cr up split: prod.splits sum.splits)
  then have "airtable_webhook tbl srv \<lparr>payload_id = i, payload_fields = f1\<rparr> =
             airtable_webhook tbl srv \<lparr>payload_id = i, payload_fields = f2\<rparr>"
    by (simp add: airtable_webhook_def)
  with vals cr up show ?thesis
    by simp
qed

text \<open>A field set with the extra key \<open>Email\<close> against the same one without it.\<close>

theorem unmapped_fields_have_no_influence_witness:
  "build_values_from_fields
     [''Startup name'' \<mapsto> PyStr ''Acme'', ''Email'' \<mapsto> PyObj (7::nat)] =
   build_values_from_fields [''Startup name'' \<mapsto> PyStr ''Acme''] \<and>
   airtable_webhook (Some ''startups'') \<lparr>table_name = ''startups'', table_columns = [''airtable_id''],
       table = [], script = []\<rparr>
     \<lparr>payload_id = ''rec1'',
      payload_fields = [''Startup name'' \<mapsto> PyStr ''Acme'', ''Email'' \<mapsto> PyObj (7::nat)]\<rparr> =
   airtable_webhook (Some ''startups'') \<lparr>table_name = ''startups'', table_columns = [''airtable_id''],
       table = [], script = []\<rparr>
     \<lparr>payload_id = ''rec1'', payload_fields = [''Startup name'' \<mapsto> PyStr ''Acme'']\<rparr>"
proof -
  let ?f1 = "[''Startup name'' \<mapsto> PyStr ''Acme'', ''Email'' \<mapsto> PyObj (7::nat)]"
  let ?f2 = "[''Startup name'' \<mapsto> PyStr ''Acme'' :: nat pyval]"
  have h: "\<forall>k \<in> set FIELDS_LIST. ?f1 k = ?f2 k"
    by (simp add: FIELDS_LIST_def)
  show ?thesis
    using unmapped_fields_have_no_influence [OF h] by blast
qed

section \<open>The query builder and what the accessor sends\<close>

text \<open>
  Claim C4. The INSERT statement lists the identifier column and then the mapped columns
  in mapping order, with one \<open>%s\<close> per column, and \<open>create\<close> sends it with the
  parameters \<open>[identifier] + mapped values\<close>. The UPDATE statement sets every mapped
  column to a \<open>%s\<close> and filters by the identifier column, and \<open>update\<close> sends it with
  \<open>mapped values + [identifier]\<close>. What is sent is read off the connection's trace.
\<close>

theorem statements_and_parameters:
  "build_insert_query tbl =
     nl @ ''        INSERT INTO '' @ fmt_name tbl @
     '' ('' @ join '', '' (''airtable_id'' # FIELDS_LIST) @ '')'' @
     nl @ ''        VALUES ('' @
       join '', '' (replicate (length (''airtable_id'' # FIELDS_LIST)) ''%s'') @ '')'' @
     nl @ ''    '' \<and>
   trace (snd (create_record_in_postgres tbl c i flds)) =
     trace c @ [Execute (build_insert_query tbl) ([PyStr i] @ map (dict_get flds) FIELDS_LIST)] \<and>
   build_update_query tbl =
     nl @ ''        UPDATE '' @ fmt_name tbl @
     nl @ ''        SET '' @ join '', '' (map (\<lambda>col. col @ '' = %s'') FIELDS_LIST) @
     nl @ ''        WHERE airtable_id = %s'' @
     nl @ ''    '' \<and>
   trace (snd (update_record_in_postgres tbl c i flds)) =
     trace c @ [Execute (build_update_query tbl) (map (dict_get flds) FIELDS_LIST @ [PyStr i])]"
proof -
  have "build_insert_query tbl =
     nl @ ''        INSERT INTO '' @ fmt_name tbl @
     '' ('' @ join '', '' (''airtable_id'' # FIELDS_LIST) @ '')'' @
     nl @ ''        VALUES ('' @
       join '', '' (replicate (length (''airtable_id'' # FIELDS_LIST)) ''%s'') @ '')'' @
     nl @ ''    ''"
    by (simp add: build_insert_query_def insert_cols_def insert_placeholders_def
        values_FIELD_MAP)
  moreover have "build_update_query tbl =
     nl @ ''        UPDATE '' @ fmt_name tbl @
     nl @ ''        SET '' @ join '', '' (map (\<lambda>col. col @ '' = %s'') FIELDS_LIST) @
     nl @ ''        WHERE airtable_id = %s'' @
     nl @ ''    ''"
    by (simp add: build_update_query_def update_cols_def values_FIELD_MAP)
  ultimately show ?thesis
    using create_trace [of tbl c i flds] update_trace [of tbl c i flds]
    by (simp only: build_values_eq simp_thms)
qed

text \<open>The two statement texts for the table \<open>startups\<close>, and what is sent for \<open>rec1\<close>.\<close>

theorem statements_and_parameters_witness:
  "build_insert_query (Some ''startups'') =
     nl @ ''        INSERT INTO startups (airtable_id, record_id, Startup name, PH1_Constitution_Location, date_sourced)'' @
     nl @ ''        VALUES (%s, %s, %s, %s, %s)'' @
     nl @ ''    '' \<and>
   build_update_query (Some ''startups'') =
     nl @ ''        UPDATE startups'' @
     nl @ ''        SET record_id = %s, Startup name = %s, PH1_Constitution_Location = %s, date_sourced = %s'' @
     nl @ ''        WHERE airtable_id = %s'' @
     nl @ ''    '' \<and>
   trace (snd (create_record_in_postgres (Some ''startups'')
                 \<lparr>relation = ''startups'', columns_of = [''airtable_id''], persisted = [],
                   pending = [], faults = [], trace = [], closed = False\<rparr>
                 ''rec1'' [''Startup name'' \<mapsto> PyStr ''Acme'' :: unit pyval])) =
     [Execute (build_insert_query (Some ''startups''))
        [PyStr ''rec1'', PyNone, PyStr ''Acme'', PyNone, PyNone]] \<and>
   trace (snd (update_record_in_postgres (Some ''startups'')
                 \<lparr>relation = ''startups'', columns_of = [''airtable_id''], persisted = [],
                   pending = [], faults = [], trace = [], closed = False\<rparr>
                 ''rec1'' [''Startup name'' \<mapsto> PyStr ''Acme'' :: unit pyval])) =
     [Execute (build_update_query (Some ''startups''))
        [PyNone, PyStr ''Acme'', PyNone, PyNone, PyStr ''rec1'']]"
  using statements_and_parameters
          [of "Some ''startups''"
              "\<lparr>relation = ''startups'', columns_of = [''airtable_id''], persisted = [],
                   pending = [], faults = [], trace = [], closed = False\<rparr>"
              "''rec1''" "[''Startup name'' \<mapsto> PyStr ''Acme'' :: unit pyval]"]
  by (simp add: FIELDS_LIST_def fmt_name_def dict_get_def)

section \<open>Updating a row\<close>




section \<open>The create path and the update path meet the engine\<close>

text \<open>
  Claim C1 does not hold of the module. Take a configured table name that serves the
  database, an environment that lets every call through and a payload whose identifier
  has no row. The handler sends the lookup and then the INSERT; the engine rejects the
  INSERT at the second word of the unquoted column name \<open>Startup name\<close>; the handler
  rolls back and answers the error 500 with the engine's message, where the claim has
  the success \<open>created record\<close>; the committed table is the one before the request,
  where the claim has one new row.
\<close>

theorem create_path_is_rejected:
  assumes "calm (script srv)" and "serves tbl srv"
    and "rows_with_id (table srv) (payload_id p) = []"
  shows "fst (airtable_webhook tbl srv p) =
           HTTPException 500 (''syntax error at or near '' @ dq @ ''name'' @ dq) \<and>
         persisted (snd (airtable_webhook tbl srv p)) = table srv \<and>
         trace (snd (airtable_webhook tbl srv p)) =
           [Execute (select_query tbl) [PyStr (payload_id p)],
            Execute (build_insert_query tbl)
              ([PyStr (payload_id p)] @ build_values_from_fields (payload_fields p)),
            Rollback, Close]"
  by (simp add: webhook_create_rejected [OF assms] error_near_def)

text \<open>A first request for \<open>rec1\<close> on the empty table \<open>startups\<close>.\<close>

theorem create_path_is_rejected_witness:
  "calm [] \<and>
   serves (Some ''startups'')
     \<lparr>table_name = ''startups'',
      table_columns = [''airtable_id'', ''record_id'', ''Startup name'',
                       ''PH1_Constitution_Location'', ''date_sourced''],
      table = ([] :: unit table), script = []\<rparr> \<and>
   rows_with_id ([] :: unit table) ''rec1'' = [] \<and>
   airtable_webhook (Some ''startups'')
     \<lparr>table_name = ''startups'',
      table_columns = [''airtable_id'', ''record_id'', ''Startup name'',
                       ''PH1_Constitution_Location'', ''date_sourced''],
      table = ([] :: unit table), script = []\<rparr>
     \<lparr>payload_id = ''rec1'', payload_fields = [''Startup name'' \<mapsto> PyStr ''Acme'']\<rparr> =
   (HTTPException 500 (''syntax error at or near '' @ dq @ ''name'' @ dq),
    \<lparr>relation = ''startups'',
     columns_of = [''airtable_id'', ''record_id'', ''Startup name'',
                   ''PH1_Constitution_Location'', ''date_sourced''],
     persisted = [], pending = [], faults = [],
     trace = [Execute (select_query (Some ''startups'')) [PyStr ''rec1''],
              Execute (build_insert_query (Some ''startups''))
                [PyStr ''rec1'', PyNone, PyStr ''Acme'', PyNone, PyNone],
              Rollback, Close],
     closed = True\<rparr>)"
proof -
  let ?srv = "\<lparr>table_name = ''startups'',
      table_columns = [''airtable_id'', ''record_id'', ''Startup name'',
                       ''PH1_Constitution_Location'', ''date_sourced''],
      table = ([] :: unit table), script = []\<rparr>"
  let ?p = "\<lparr>payload_id = ''rec1'',
             payload_fields = [''Startup name'' \<mapsto> PyStr ''Acme'' :: unit pyval]\<rparr>"
  let ?w = "airtable_webhook (Some ''startups'') ?srv ?p"
  have c: "calm (script ?srv)"
    by (simp add: calm_def)
  have s: "serves (Some ''startups'') ?srv"
    by (simp add: serves_def plain_def word_chars_def valid_name_def keyword_def
        fold_case_def lower_def fmt_name_def)
  have r: "rows_with_id (table ?srv) (payload_id ?p) = []"
    by (simp add: rows_with_id_def)
  have main: "fst ?w = HTTPException 500 (''syntax error at or near '' @ dq @ ''name'' @ dq) \<and>
              persisted (snd ?w) = table ?srv \<and>
              trace (snd ?w) =
                [Execute (select_query (Some ''startups'')) [PyStr (payload_id ?p)],
                 Execute (build_insert_query (Some ''startups''))
                   ([PyStr (payload_id ?p)] @ build_values_from_fields (payload_fields ?p)),
                 Rollback, Close]"
    by (rule create_path_is_rejected [OF c s r])
  have rest: "relation (snd ?w) = ''startups''"
    "columns_of (snd ?w) = [''airtable_id'', ''record_id'', ''Startup name'',
                   ''PH1_Constitution_Location'', ''date_sourced'']"
    "pending (snd ?w) = []" "faults (snd ?w) = []" "closed (snd ?w)"
    by (simp_all add: webhook_create_rejected [OF c s r])
  have "?w = (fst ?w, snd ?w)"
    by simp
  moreover have "snd ?w =
    \<lparr>relation = ''startups'',
     columns_of = [''airtable_id'', ''record_id'', ''Startup name'',
                   ''PH1_Constitution_Location'', ''date_sourced''],
     persisted = [], pending = [], faults = [],
     trace = [Execute (select_query (Some ''startups'')) [PyStr ''rec1''],
              Execute (build_insert_query (Some ''startups''))
                [PyStr ''rec1'', PyNone, PyStr ''Acme'', PyNone, PyNone],
              Rollback, Close],
     closed = True\<rparr>"
    using main rest
    by (cases "snd ?w") (simp add: build_values_eq FIELDS_LIST_def dict_get_def)
  ultimately have "?w = (HTTPException 500 (''syntax error at or near '' @ dq @ ''name'' @ dq),
    \<lparr>relation = ''startups'',
     columns_of = [''airtable_id'', ''record_id'', ''Startup name'',
                   ''PH1_Constitution_Location'', ''date_sourced''],
     persisted = [], pending = [], faults = [],
     trace = [Execute (select_query (Some ''startups'')) [PyStr ''rec1''],
              Execute (build_insert_query (Some ''startups''))
                [PyStr ''rec1'', PyNone, PyStr ''Acme'', PyNone, PyNone],
              Rollback, Close],
     closed = True\<rparr>)"
    using main by (metis)
  with c s show ?thesis
    by (simp add: rows_with_id_def)
qed

text \<open>
  Claim C5 does not hold of the module. Take a configured table name that serves the
  database, an environment that lets every call through and a payload whose identifier
  has a row. The handler sends the lookup and then the UPDATE; the engine rejects the
  UPDATE at the second word of the unquoted column name \<open>Startup name\<close>; the handler
  rolls back and answers the error 500 with the engine's message. The committed table
  is the one before the request: no mapped column is overwritten.
\<close>

theorem update_path_is_rejected:
  assumes "calm (script srv)" and "serves tbl srv"
    and "rows_with_id (table srv) (payload_id p) \<noteq> []"
  shows "fst (airtable_webhook tbl srv p) =
           HTTPException 500 (''syntax error at or near '' @ dq @ ''name'' @ dq) \<and>
         persisted (snd (airtable_webhook tbl srv p)) = table srv \<and>
         trace (snd (airtable_webhook tbl srv p)) =
           [Execute (select_query tbl) [PyStr (payload_id p)],
            Execute (build_update_query tbl)
              (build_values_from_fields (payload_fields p) @ [PyStr (payload_id p)]),
            Rollback, Close]"
  by (simp add: webhook_update_rejected [OF assms] error_near_def)

text \<open>A request for \<open>rec1\<close> whose row holds the name \<open>Old\<close>: the row still holds it.\<close>

theorem update_path_is_rejected_witness:
  "calm [] \<and>
   serves (Some ''startups'')
     \<lparr>table_name = ''startups'',
      table_columns = [''airtable_id'', ''record_id'', ''Startup name'',
                       ''PH1_Constitution_Location'', ''date_sourced''],
      table = [[(''airtable_id'', PyStr ''rec1''), (''record_id'', PyNone),
                (''Startup name'', PyStr ''Old''), (''PH1_Constitution_Location'', PyNone),
                (''date_sourced'', PyNone :: unit pyval)]],
      script = []\<rparr> \<and>
   rows_with_id
     [[(''airtable_id'', PyStr ''rec1''), (''record_id'', PyNone),
       (''Startup name'', PyStr ''Old''), (''PH1_Constitution_Location'', PyNone),
       (''date_sourced'', PyNone :: unit pyval)]] ''rec1'' \<noteq> [] \<and>
   fst (airtable_webhook (Some ''startups'')
     \<lparr>table_name = ''startups'',
      table_columns = [''airtable_id'', ''record_id'', ''Startup name'',
                       ''PH1_Constitution_Location'', ''date_sourced''],
      table = [[(''airtable_id'', PyStr ''rec1''), (''record_id'', PyNone),
                (''Startup name'', PyStr ''Old''), (''PH1_Constitution_Location'', PyNone),
                (''date_sourced'', PyNone :: unit pyval)]],
      script = []\<rparr>
     \<lparr>payload_id = ''rec1'', payload_fields = [''Startup name'' \<mapsto> PyStr ''Acme'']\<rparr>) =
   HTTPException 500 (''syntax error at or near '' @ dq @ ''name'' @ dq) \<and>
   persisted (snd (airtable_webhook (Some ''startups'')
     \<lparr>table_name = ''startups'',
      table_columns = [''airtable_id'', ''record_id'', ''Startup name'',
                       ''PH1_Constitution_Location'', ''date_sourced''],
      table = [[(''airtable_id'', PyStr ''rec1''), (''record_id'', PyNone),
                (''Startup name'', PyStr ''Old''), (''PH1_Constitution_Location'', PyNone),
                (''date_sourced'', PyNone :: unit pyval)]],
      script = []\<rparr>
     \<lparr>payload_id = ''rec1'', payload_fields = [''Startup name'' \<mapsto> PyStr ''Acme'']\<rparr>)) =
   [[(''airtable_id'', PyStr ''rec1''), (''record_id'', PyNone),
     (''Startup name'', PyStr ''Old''), (''PH1_Constitution_Location'', PyNone),
     (''date_sourced'', PyNone)]]"
proof -
  let ?t = "[[(''airtable_id'', PyStr ''rec1''), (''record_id'', PyNone),
       (''Startup name'', PyStr ''Old''), (''PH1_Constitution_Location'', PyNone),
       (''date_sourced'', PyNone :: unit pyval)]]"
  let ?srv = "\<lparr>table_name = ''startups'',
      table_columns = [''airtable_id'', ''record_id'', ''Startup name'',
                       ''PH1_Constitution_Location'', ''date_sourced''],
      table = ?t, script = []\<rparr>"
  let ?p = "\<lparr>payload_id = ''rec1'',
             payload_fields = [''Startup name'' \<mapsto> PyStr ''Acme'' :: unit pyval]\<rparr>"
  have c: "calm (script ?srv)"
    by (simp add: calm_def)
  have s: "serves (Some ''startups'') ?srv"
    by (simp add: serves_def plain_def word_chars_def valid_name_def keyword_def
        fold_case_def lower_def fmt_name_def)
  have r: "rows_with_id (table ?srv) (payload_id ?p) \<noteq> []"
    by (simp add: rows_with_id_def row_matches_def)
  show ?thesis
    using c s r update_path_is_rejected [OF c s r]
    by simp
qed

text \<open>
  Claim C6 does not hold of the module. The payload with identifier \<open>rec1\<close> and the
  fields \<open>Startup name = Acme\<close> and \<open>date_sourced = 2024-01-01\<close> is sent twice to a
  server with no row for \<open>rec1\<close>, the table name serving the database and the
  environment letting every call through. The first call answers the error 500 of the
  rejected INSERT and creates no row. The second call finds no row either, sends the
  INSERT again (with a null \<open>record_id\<close> as its second parameter), and answers the
  same error, where the claim has \<open>updated record\<close>; the table is still the one from
  before the two calls.
\<close>

theorem example_payload_is_rejected_twice:
  assumes "calm (script srv)" and "serves tbl srv"
    and "rows_with_id (table srv) ''rec1'' = []"
  shows
    "fst (airtable_webhook tbl srv
            \<lparr>payload_id = ''rec1'',
             payload_fields = [''Startup name'' \<mapsto> PyStr ''Acme'',
                               ''date_sourced'' \<mapsto> PyStr ''2024-01-01'']\<rparr>)
       = HTTPException 500 (''syntax error at or near '' @ dq @ ''name'' @ dq) \<and>
     persisted (snd (airtable_webhook tbl srv
            \<lparr>payload_id = ''rec1'',
             payload_fields = [''Startup name'' \<mapsto> PyStr ''Acme'',
                               ''date_sourced'' \<mapsto> PyStr ''2024-01-01'']\<rparr>))
       = table srv \<and>
     fst (airtable_webhook tbl
            (server_after srv (snd (airtable_webhook tbl srv
               \<lparr>payload_id = ''rec1'',
                payload_fields = [''Startup name'' \<mapsto> PyStr ''Acme'',
                                  ''date_sourced'' \<mapsto> PyStr ''2024-01-01'']\<rparr>)))
            \<lparr>payload_id = ''rec1'',
             payload_fields = [''Startup name'' \<mapsto> PyStr ''Acme'',
                               ''date_sourced'' \<mapsto> PyStr ''2024-01-01'']\<rparr>)
       = HTTPException 500 (''syntax error at or near '' @ dq @ ''name'' @ dq) \<and>
     trace (snd (airtable_webhook tbl
            (server_after srv (snd (airtable_webhook tbl srv
               \<lparr>payload_id = ''rec1'',
                payload_fields = [''Startup name'' \<mapsto> PyStr ''Acme'',
                                  ''date_sourced'' \<mapsto> PyStr ''2024-01-01'']\<rparr>)))
            \<lparr>payload_id = ''rec1'',
             payload_fields = [''Startup name'' \<mapsto> PyStr ''Acme'',
                               ''date_sourced'' \<mapsto> PyStr ''2024-01-01'']\<rparr>))
       = [Execute (select_query tbl) [PyStr ''rec1''],
          Execute (build_insert_query tbl)
            [PyStr ''rec1'', PyNone, PyStr ''Acme'', PyNone, PyStr ''2024-01-01''],
          Rollback, Close] \<and>
     persisted (snd (airtable_webhook tbl
            (server_after srv (snd (airtable_webhook tbl srv
               \<lparr>payload_id = ''rec1'',
                payload_fields = [''Startup name'' \<mapsto> PyStr ''Acme'',
                                  ''date_sourced'' \<mapsto> PyStr ''2024-01-01'']\<rparr>)))
            \<lparr>payload_id = ''rec1'',
             payload_fields = [''Startup name'' \<mapsto> PyStr ''Acme'',
                               ''date_sourced'' \<mapsto> PyStr ''2024-01-01'']\<rparr>))
       = table srv"
proof -
  let ?f = "[''Startup name'' \<mapsto> PyStr ''Acme'', ''date_sourced'' \<mapsto> PyStr ''2024-01-01'']
              :: 'a field_set"
  let ?p = "\<lparr>payload_id = ''rec1'', payload_fields = ?f\<rparr>"
  let ?srv1 = "srv\<lparr>script := tl (tl (tl (script srv)))\<rparr>"
  have r0: "rows_with_id (table srv) (payload_id ?p) = []"
    using assms(3) by simp
  note w0 = webhook_create_rejected [OF assms(1,2) r0]
  have first: "fst (airtable_webhook tbl srv ?p) =
                 HTTPException 500 (''syntax error at or near '' @ dq @ ''name'' @ dq)"
    and p1: "persisted (snd (airtable_webhook tbl srv ?p)) = table srv"
    and f1: "faults (snd (airtable_webhook tbl srv ?p)) = tl (tl (tl (script srv)))"
    by (simp_all add: w0 error_near_def)
  have srv1: "server_after srv (snd (airtable_webhook tbl srv ?p)) = ?srv1"
    by (simp add: server_after_def p1 f1)
  have c1: "calm (script ?srv1)"
    using assms(1) by (simp add: calm_tl)
  have s1: "serves tbl ?srv1"
    using assms(2) by (simp add: serves_def)
  have r1: "rows_with_id (table ?srv1) (payload_id ?p) = []"
    using assms(3) by simp
  note w1 = webhook_create_rejected [OF c1 s1 r1]
  have second: "fst (airtable_webhook tbl ?srv1 ?p) =
                 HTTPException 500 (''syntax error at or near '' @ dq @ ''name'' @ dq)"
    and p2: "persisted (snd (airtable_webhook tbl ?srv1 ?p)) = table srv"
    and t2: "trace (snd (airtable_webhook tbl ?srv1 ?p)) =
       [Execute (select_query tbl) [PyStr ''rec1''],
        Execute (build_insert_query tbl)
          [PyStr ''rec1'', PyNone, PyStr ''Acme'', PyNone, PyStr ''2024-01-01''],
        Rollback, Close]"
    by (simp_all add: w1 error_near_def build_values_eq FIELDS_LIST_def dict_get_def)
  from first p1 second t2 p2 show ?thesis
    by (simp only: srv1 simp_thms)
qed


text \<open>On the empty table \<open>startups\<close>: two errors, and the table is still empty.\<close>

theorem example_payload_is_rejected_twice_witness:
  "calm [] \<and>
   serves (Some ''startups'')
     \<lparr>table_name = ''startups'',
      table_columns = [''airtable_id'', ''record_id'', ''Startup name'',
                       ''PH1_Constitution_Location'', ''date_sourced''],
      table = ([] :: unit table), script = []\<rparr> \<and>
   rows_with_id ([] :: unit table) ''rec1'' = [] \<and>
   fst (airtable_webhook (Some ''startups'')
     \<lparr>table_name = ''startups'',
      table_columns = [''airtable_id'', ''record_id'', ''Startup name'',
                       ''PH1_Constitution_Location'', ''date_sourced''],
      table = ([] :: unit table), script = []\<rparr>
     \<lparr>payload_id = ''rec1'',
      payload_fields = [''Startup name'' \<mapsto> PyStr ''Acme'',
                        ''date_sourced'' \<mapsto> PyStr ''2024-01-01'']\<rparr>) =
   HTTPException 500 (''syntax error at or near '' @ dq @ ''name'' @ dq) \<and>
   fst (airtable_webhook (Some ''startups'')
     (server_after
        \<lparr>table_name = ''startups'',
      table_columns = [''airtable_id'', ''record_id'', ''Startup name'',
                       ''PH1_Constitution_Location'', ''date_sourced''],
      table = ([] :: unit table), script = []\<rparr>
        (snd (airtable_webhook (Some ''startups'')
     \<lparr>table_name = ''startups'',
      table_columns = [''airtable_id'', ''record_id'', ''Startup name'',
                       ''PH1_Constitution_Location'', ''date_sourced''],
      table = ([] :: unit table), script = []\<rparr>
     \<lparr>payload_id = ''rec1'',
      payload_fields = [''Startup name'' \<mapsto> PyStr ''Acme'',
                        ''date_sourced'' \<mapsto> PyStr ''2024-01-01'']\<rparr>)))
     \<lparr>payload_id = ''rec1'',
      payload_fields = [''Startup name'' \<mapsto> PyStr ''Acme'',
                        ''date_sourced'' \<mapsto> PyStr ''2024-01-01'']\<rparr>) =
   HTTPException 500 (''syntax error at or near '' @ dq @ ''name'' @ dq) \<and>
   persisted (snd (airtable_webhook (Some ''startups'')
     (server_after
        \<lparr>table_name = ''startups'',
      table_columns = [''airtable_id'', ''record_id'', ''Startup name'',
                       ''PH1_Constitution_Location'', ''date_sourced''],
      table = ([] :: unit table), script = []\<rparr>
        (snd (airtable_webhook (Some ''startups'')
     \<lparr>table_name = ''startups'',
      table_columns = [''airtable_id'', ''record_id'', ''Startup name'',
                       ''PH1_Constitution_Location'', ''date_sourced''],
      table = ([] :: unit table), script = []\<rparr>
     \<lparr>payload_id = ''rec1'',
      payload_fields = [''Startup name'' \<mapsto> PyStr ''Acme'',
                        ''date_sourced'' \<mapsto> PyStr ''2024-01-01'']\<rparr>)))
     \<lparr>payload_id = ''rec1'',
      payload_fields = [''Startup name'' \<mapsto> PyStr ''Acme'',
                        ''date_sourced'' \<mapsto> PyStr ''2024-01-01'']\<rparr>)) = []"
proof -
  let ?srv = "\<lparr>table_name = ''startups'',
      table_columns = [''airtable_id'', ''record_id'', ''Startup name'',
                       ''PH1_Constitution_Location'', ''date_sourced''],
      table = ([] :: unit table), script = []\<rparr>"
  have c: "calm (script ?srv)"
    by (simp add: calm_def)
  have s: "serves (Some ''startups'') ?srv"
    by (simp add: serves_def plain_def word_chars_def valid_name_def keyword_def
        fold_case_def lower_def fmt_name_def)
  have r: "rows_with_id (table ?srv) ''rec1'' = []"
    by (simp add: rows_with_id_def)
  show ?thesis
    using c s r example_payload_is_rejected_twice [OF c s r]
    by simp
qed

text \<open>
  Claim C8 does not hold of the module. For every plain table name, connection,
  identifier and field set, \<open>update\<close> ends with an exception (\<open>isl\<close>: its outcome is
  an \<open>Inl\<close>), whether or not a row carries the identifier: it never is a silent
  success. The transaction's table and the committed table are as they were. When the
  environment lets the call through, the exception is the engine's syntax error at the
  second word of \<open>Startup name\<close>.
\<close>

theorem update_always_raises:
  assumes "plain (fmt_name tbl)"
  shows "isl (fst (update_record_in_postgres tbl c i flds)) \<and>
         pending (snd (update_record_in_postgres tbl c i flds)) = pending c \<and>
         persisted (snd (update_record_in_postgres tbl c i flds)) = persisted c \<and>
         (calm (faults c) \<longrightarrow>
            fst (update_record_in_postgres tbl c i flds) =
              Inl (''syntax error at or near '' @ dq @ ''name'' @ dq))"
  using assms
  by (simp add: update_always_fails update_pending update_persisted update_is_rejected
      error_near_def)

text \<open>An update of \<open>rec1\<close> on a table that only holds \<open>rec2\<close>.\<close>

theorem update_always_raises_witness:
  "calm [] \<and> plain (fmt_name (Some ''startups'')) \<and>
   rows_with_id [[(''airtable_id'', PyStr ''rec2'' :: unit pyval)]] ''rec1'' = [] \<and>
   fst (update_record_in_postgres (Some ''startups'')
     \<lparr>relation = ''startups'', columns_of = [''airtable_id''],
      persisted = [[(''airtable_id'', PyStr ''rec2'')]],
      pending = [[(''airtable_id'', PyStr ''rec2'')]],
      faults = [], trace = [], closed = False\<rparr>
     ''rec1'' [''Startup name'' \<mapsto> PyStr ''Acme'' :: unit pyval]) =
   Inl (''syntax error at or near '' @ dq @ ''name'' @ dq)"
proof -
  let ?c = "\<lparr>relation = ''startups'', columns_of = [''airtable_id''],
      persisted = [[(''airtable_id'', PyStr ''rec2'' :: unit pyval)]],
      pending = [[(''airtable_id'', PyStr ''rec2'')]],
      faults = [], trace = [], closed = False\<rparr>"
  have k: "calm (faults ?c)"
    by (simp add: calm_def)
  have p: "plain (fmt_name (Some ''startups''))"
    by (simp add: plain_def word_chars_def fmt_name_def)
  have r: "rows_with_id [[(''airtable_id'', PyStr ''rec2'' :: unit pyval)]] ''rec1'' = []"
    by (simp add: rows_with_id_def row_matches_def)
  show ?thesis
    using k p r
      update_always_raises
        [OF p, of ?c "''rec1''" "[''Startup name'' \<mapsto> PyStr ''Acme'']"]
    by simp
qed

section \<open>The transaction around a request\<close>

lemma after_sync_closes:
  "closed (snd (after_sync (r, c)))" "last (trace (snd (after_sync (r, c)))) = Close"
  using commit_cases [of c]
  by (cases r; auto simp add: after_sync_def except_block_facts conn_close_def)+

lemma handler_after_failed_sync:
  assumes "sync_airtable_record tbl (get_conn srv) p = (Inl e, c)"
  shows "airtable_webhook tbl srv p = except_block e c"
    and "persisted (snd (airtable_webhook tbl srv p)) = table srv"
proof -
  show w: "airtable_webhook tbl srv p = except_block e c"
    using assms by (simp add: airtable_webhook_def after_sync_def)
  have "persisted c = persisted (get_conn srv)"
    using sync_persisted [of tbl "get_conn srv" p] assms by simp
  then show "persisted (snd (airtable_webhook tbl srv p)) = table srv"
    by (simp add: w except_block_facts get_conn_def)
qed

text \<open>
  What the handler does when the rollback goes through: every exception of the sync
  becomes the error 500 with its message, after a rollback and before the close.
\<close>

lemma handler_when_rollback_goes_through:
  assumes "sync_airtable_record tbl (get_conn srv) p = (Inl e, c)"
    and "conn_rollback c = (Inr u, c')"
  shows "fst (airtable_webhook tbl srv p) = HTTPException 500 e"
    and "persisted (snd (airtable_webhook tbl srv p)) = table srv"
    and "closed (snd (airtable_webhook tbl srv p))"
  using handler_after_failed_sync [OF assms(1)] except_block_rolled_back [OF assms(2)]
  by (simp_all add: conn_close_def)

text \<open>
  What the handler does with a sync that returned, from any connection state: it commits;
  when the commit goes through, the committed table is the transaction's table and the
  answer is the success with the sync's label.
\<close>

lemma handler_after_commit:
  assumes "conn_commit c = (Inr u, c')"
  shows "fst (after_sync (Inr action, c)) = Success action"
    and "persisted (snd (after_sync (Inr action, c))) = pending c"
    and "trace (snd (after_sync (Inr action, c))) = trace c @ [Commit, Close]"
    and "closed (snd (after_sync (Inr action, c)))"
  using commit_cases [of c] assms
  by (auto simp add: after_sync_def conn_close_def)

text \<open>
  Claim C7 does not hold of the module on one path. When the sync raises an exception
  with message \<open>e\<close> and the rollback in the \<open>except\<close> block raises in its turn, as it
  does on a connection that was lost, the \<open>HTTPException\<close> is never built: the
  exception of the rollback leaves the handler, and the answer does not carry \<open>e\<close>,
  where the claim has the error 500 with the message \<open>e\<close>. The rest of the claim holds
  on this path: nothing is committed and the connection is closed, last of all.
\<close>

theorem rollback_exception_hides_the_message:
  assumes "sync_airtable_record tbl (get_conn srv) p = (Inl e, c)"
    and "conn_rollback c = (Inl e', c')"
  shows "fst (airtable_webhook tbl srv p) = Unhandled e' \<and>
         fst (airtable_webhook tbl srv p) \<noteq> HTTPException 500 e \<and>
         persisted (snd (airtable_webhook tbl srv p)) = table srv \<and>
         closed (snd (airtable_webhook tbl srv p)) \<and>
         last (trace (snd (airtable_webhook tbl srv p))) = Close"
  using handler_after_failed_sync [OF assms(1)] except_block_rollback_raises [OF assms(2)]
    except_block_facts [where e = e and c = c]
  by simp

text \<open>
  The server closes the connection during the lookup, and the rollback finds it closed:
  the exception that leaves the handler is the one of the rollback, and the message of
  the lookup's exception is lost.
\<close>

theorem rollback_exception_hides_the_message_witness:
  "fst (sync_airtable_record (Some ''startups'')
          (get_conn \<lparr>table_name = ''startups'', table_columns = [''airtable_id''],
                     table = ([] :: unit table),
                     script = [Some ''server closed the connection unexpectedly'',
                               Some ''connection already closed'']\<rparr>)
          \<lparr>payload_id = ''rec1'', payload_fields = [''Startup name'' \<mapsto> PyStr ''Acme'']\<rparr>)
     = Inl ''server closed the connection unexpectedly'' \<and>
   airtable_webhook (Some ''startups'')
     \<lparr>table_name = ''startups'', table_columns = [''airtable_id''],
      table = ([] :: unit table),
      script = [Some ''server closed the connection unexpectedly'',
                Some ''connection already closed'']\<rparr>
     \<lparr>payload_id = ''rec1'', payload_fields = [''Startup name'' \<mapsto> PyStr ''Acme'']\<rparr> =
   (Unhandled ''connection already closed'',
    \<lparr>relation = ''startups'', columns_of = [''airtable_id''],
     persisted = [], pending = [], faults = [],
     trace = [Execute (select_query (Some ''startups'')) [PyStr ''rec1''], Rollback, Close],
     closed = True\<rparr>)"
proof -
  let ?srv = "\<lparr>table_name = ''startups'', table_columns = [''airtable_id''],
      table = ([] :: unit table),
      script = [Some ''server closed the connection unexpectedly'',
                Some ''connection already closed'']\<rparr>"
  let ?p = "\<lparr>payload_id = ''rec1'',
             payload_fields = [''Startup name'' \<mapsto> PyStr ''Acme'' :: unit pyval]\<rparr>"
  let ?c = "\<lparr>relation = ''startups'', columns_of = [''airtable_id''],
     persisted = ([] :: unit table), pending = [],
     faults = [Some ''connection already closed''],
     trace = [Execute (select_query (Some ''startups'')) [PyStr ''rec1'']],
     closed = False\<rparr>"
  let ?c' = "\<lparr>relation = ''startups'', columns_of = [''airtable_id''],
     persisted = ([] :: unit table), pending = [], faults = [],
     trace = [Execute (select_query (Some ''startups'')) [PyStr ''rec1''], Rollback],
     closed = False\<rparr>"
  have pl: "CHR ''%'' \<notin> set (fmt_name (Some ''startups''))"
    by (simp add: fmt_name_def)
  have s: "sync_airtable_record (Some ''startups'') (get_conn ?srv) ?p =
             (Inl ''server closed the connection unexpectedly'', ?c)"
    by (simp add: sync_airtable_record_def Let_def find_record_by_id_def cur_execute_def
        bind_select [OF pl] next_outcome_def get_conn_def)
  have r: "conn_rollback ?c = (Inl ''connection already closed'', ?c')"
    by (simp add: conn_rollback_def next_outcome_def)
  have w: "airtable_webhook (Some ''startups'') ?srv ?p = except_block ''server closed the connection unexpectedly'' ?c"
    by (rule handler_after_failed_sync(1) [OF s])
  have "fst (airtable_webhook (Some ''startups'') ?srv ?p) = Unhandled ''connection already closed''"
    using rollback_exception_hides_the_message [OF s r] by blast
  moreover have "snd (airtable_webhook (Some ''startups'') ?srv ?p) = conn_close ?c'"
    by (simp add: w except_block_def r)
  ultimately have "airtable_webhook (Some ''startups'') ?srv ?p =
                     (Unhandled ''connection already closed'', conn_close ?c')"
    by (metis prod.collapse)
  then show ?thesis
    using s by (simp add: conn_close_def)
qed

section \<open>Parameters and placeholders\<close>

text \<open>
  Claim C10, as amended. For every field set and every configured table name that holds
  no \<open>%\<close>: the statement and the parameter list that \<open>create\<close> hands to \<open>execute\<close>
  agree in number, the text has as many \<open>%s\<close> as the list has parameters, \<open>1 +\<close> the
  number of mapped fields; the same holds of \<open>update\<close>, with the number of mapped fields
  \<open>+ 1\<close>. So the driver binds the parameters of either execution without an error.
\<close>

theorem parameters_fit_placeholders:
  assumes "CHR ''%'' \<notin> set (fmt_name tbl)"
  shows "(case last (trace (snd (create_record_in_postgres tbl c i flds))) of
            Execute q ps \<Rightarrow>
              count_placeholders q = length ps \<and> length ps = 1 + length FIELDS_LIST \<and>
              bind_error q ps = None
          | _ \<Rightarrow> False) \<and>
         (case last (trace (snd (update_record_in_postgres tbl c i flds))) of
            Execute q ps \<Rightarrow>
              count_placeholders q = length ps \<and> length ps = length FIELDS_LIST + 1 \<and>
              bind_error q ps = None
          | _ \<Rightarrow> False)"
  using assms
  by (simp add: create_trace update_trace count_insert_placeholders
      count_update_placeholders length_build_values bind_error_def FIELDS_LIST_def)

text \<open>Five placeholders and five parameters for the table \<open>startups\<close>.\<close>

theorem parameters_fit_placeholders_witness:
  "CHR ''%'' \<notin> set (fmt_name (Some ''startups'')) \<and>
   last (trace (snd (create_record_in_postgres (Some ''startups'')
     \<lparr>relation = ''startups'', columns_of = [''airtable_id''], persisted = [],
      pending = [], faults = [], trace = [], closed = False\<rparr>
     ''rec1'' [''Startup name'' \<mapsto> PyStr ''Acme'' :: unit pyval]))) =
   Execute (build_insert_query (Some ''startups''))
     [PyStr ''rec1'', PyNone, PyStr ''Acme'', PyNone, PyNone] \<and>
   count_placeholders (build_insert_query (Some ''startups'')) = 5 \<and>
   last (trace (snd (update_record_in_postgres (Some ''startups'')
     \<lparr>relation = ''startups'', columns_of = [''airtable_id''], persisted = [],
      pending = [], faults = [], trace = [], closed = False\<rparr>
     ''rec1'' [''Startup name'' \<mapsto> PyStr ''Acme'' :: unit pyval]))) =
   Execute (build_update_query (Some ''startups''))
     [PyNone, PyStr ''Acme'', PyNone, PyNone, PyStr ''rec1''] \<and>
   count_placeholders (build_update_query (Some ''startups'')) = 5"
proof -
  let ?c = "\<lparr>relation = ''startups'', columns_of = [''airtable_id''],
      persisted = ([] :: unit table),
      pending = [], faults = [], trace = [], closed = False\<rparr>"
  let ?f = "[''Startup name'' \<mapsto> PyStr ''Acme'' :: unit pyval]"
  have h: "CHR ''%'' \<notin> set (fmt_name (Some ''startups''))"
    by (simp add: fmt_name_def)
  have ct: "last (trace (snd (create_record_in_postgres (Some ''startups'') ?c ''rec1'' ?f))) =
          Execute (build_insert_query (Some ''startups''))
            [PyStr ''rec1'', PyNone, PyStr ''Acme'', PyNone, PyNone]"
    by (simp add: create_trace build_values_eq FIELDS_LIST_def dict_get_def)
  have ut: "last (trace (snd (update_record_in_postgres (Some ''startups'') ?c ''rec1'' ?f))) =
          Execute (build_update_query (Some ''startups''))
            [PyNone, PyStr ''Acme'', PyNone, PyNone, PyStr ''rec1'']"
    by (simp add: update_trace build_values_eq FIELDS_LIST_def dict_get_def)
  from parameters_fit_placeholders [OF h, of ?c "''rec1''" ?f]
  have "count_placeholders (build_insert_query (Some ''startups'')) = 5"
    and "count_placeholders (build_update_query (Some ''startups'')) = 5"
    by (simp_all add: ct ut)
  with h ct ut show ?thesis
    by simp
qed

text \<open>
  As first stated, claim C10 holds for every configuration. The table name is written
  into the statement text as it is: with the name \<open>t%s\<close> the INSERT has six
  placeholders for the five parameters \<open>create\<close> passes, and the execution fails in the
  driver for want of a sixth.
\<close>

theorem percent_in_table_name_counterexample:
  "count_placeholders (build_insert_query (Some ''t%s'')) = 6 \<and>
   last (trace (snd (create_record_in_postgres (Some ''t%s'')
     \<lparr>relation = ''t'', columns_of = [''airtable_id''], persisted = [],
      pending = [], faults = [], trace = [], closed = False\<rparr>
     ''rec1'' (Map.empty :: unit field_set)))) =
   Execute (build_insert_query (Some ''t%s''))
     [PyStr ''rec1'', PyNone, PyNone, PyNone, PyNone] \<and>
   fst (create_record_in_postgres (Some ''t%s'')
     \<lparr>relation = ''t'', columns_of = [''airtable_id''], persisted = [],
      pending = [], faults = [], trace = [], closed = False\<rparr>
     ''rec1'' (Map.empty :: unit field_set)) = Inl ''list index out of range''"
proof -
  have n: "count_placeholders (build_insert_query (Some ''t%s'')) = 6"
    by (simp add: insert_query_text fmt_name_def nl_def)
  then have b: "bind_error (build_insert_query (Some ''t%s''))
                  (PyStr ''rec1'' # build_values_from_fields (Map.empty :: unit field_set)) =
                Some ''list index out of range''"
    by (simp add: bind_error_def length_build_values)
  have t: "last (trace (snd (create_record_in_postgres (Some ''t%s'')
     \<lparr>relation = ''t'', columns_of = [''airtable_id''], persisted = [],
      pending = [], faults = [], trace = [], closed = False\<rparr>
     ''rec1'' (Map.empty :: unit field_set)))) =
   Execute (build_insert_query (Some ''t%s''))
     [PyStr ''rec1'', PyNone, PyNone, PyNone, PyNone]"
    by (simp add: create_trace build_values_eq FIELDS_LIST_def dict_get_def)
  have f: "fst (create_record_in_postgres (Some ''t%s'')
     \<lparr>relation = ''t'', columns_of = [''airtable_id''], persisted = [],
      pending = [], faults = [], trace = [], closed = False\<rparr>
     ''rec1'' (Map.empty :: unit field_set)) = Inl ''list index out of range''"
    by (simp add: create_record_in_postgres_def execute_unbound [OF b])
  from n t f show ?thesis
    by simp
qed

end
